theory Spec2Isabelle
  imports
    Complex_Main
    "HOL-Library.Char_ord"
    "HOL-Library.List_Lexorder"
    "HOL-Library.Sublist"
    "HOL-Library.Monad_Syntax"
begin

section \<open>SkillBridge: the roadmap endpoint\<close>

text \<open>
  A shallow embedding of \<^verbatim>\<open>generate_roadmap\<close>
  (\<^verbatim>\<open>backend/app/api/routes/roadmap.py\<close>) and of the two services it calls
  (\<^verbatim>\<open>EmbeddingService.generate_embedding\<close>, \<^verbatim>\<open>GeminiService.generate_content\<close>).

  Conventions of the model.
  \<^item> A Python \<^verbatim>\<open>str\<close> is a \<^typ>\<open>string\<close>; a character is a code point below 256
    (ASCII and Latin-1), and the built-in string methods are modelled on that range.
  \<^item> A Python exception is a value of \<^verbatim>\<open>exn\<close>; a function that can raise returns
    \<^verbatim>\<open>exn + 'a\<close> with \<^verbatim>\<open>Inl\<close> for the exception.
  \<^item> A Python \<^verbatim>\<open>set\<close> of strings is a \<^typ>\<open>string set\<close>. The order in which Python
    iterates over such a set is not fixed by the language (string hashes are salted per
    interpreter process), so it is a parameter of the model (\<^verbatim>\<open>set_order\<close>).
  \<^item> Every collaborator outside the repository is a field of the record \<^verbatim>\<open>env\<close>:
    the sentence encoder, the database (its answer to a ranked query, and the store of
    the finished roadmap), the generative model, the JSON decoder, the coercions of the
    validation library and float formatting. Each of them can raise.
  \<^item> A Python \<^verbatim>\<open>float\<close> is a \<^typ>\<open>real\<close>.
  \<^item> The table \<^verbatim>\<open>job_postings\<close> is a list of rows.
\<close>

subsection \<open>Python strings\<close>

datatype exn =
    ValueError
  | IndexError
  | TypeError
  | ValidationError
  | JSONDecodeError
  | RecursionError
  | ServiceError
  | DatabaseError

text \<open>\<^verbatim>\<open>str.lower()\<close>: the upper-case letters below code point 256 and their images.\<close>

definition upper_chars :: string where
  "upper_chars = ''ABCDEFGHIJKLMNOPQRSTUVWXYZ'' @
     [CHR 0xC0, CHR 0xC1, CHR 0xC2, CHR 0xC3, CHR 0xC4, CHR 0xC5, CHR 0xC6, CHR 0xC7,
      CHR 0xC8, CHR 0xC9, CHR 0xCA, CHR 0xCB, CHR 0xCC, CHR 0xCD, CHR 0xCE, CHR 0xCF,
      CHR 0xD0, CHR 0xD1, CHR 0xD2, CHR 0xD3, CHR 0xD4, CHR 0xD5, CHR 0xD6,
      CHR 0xD8, CHR 0xD9, CHR 0xDA, CHR 0xDB, CHR 0xDC, CHR 0xDD, CHR 0xDE]"

definition lower_chars :: string where
  "lower_chars = ''abcdefghijklmnopqrstuvwxyz'' @
     [CHR 0xE0, CHR 0xE1, CHR 0xE2, CHR 0xE3, CHR 0xE4, CHR 0xE5, CHR 0xE6, CHR 0xE7,
      CHR 0xE8, CHR 0xE9, CHR 0xEA, CHR 0xEB, CHR 0xEC, CHR 0xED, CHR 0xEE, CHR 0xEF,
      CHR 0xF0, CHR 0xF1, CHR 0xF2, CHR 0xF3, CHR 0xF4, CHR 0xF5, CHR 0xF6,
      CHR 0xF8, CHR 0xF9, CHR 0xFA, CHR 0xFB, CHR 0xFC, CHR 0xFD, CHR 0xFE]"

definition lower_char :: "char \<Rightarrow> char" where
  "lower_char c = (case map_of (zip upper_chars lower_chars) c of Some l \<Rightarrow> l | None \<Rightarrow> c)"

definition str_lower :: "string \<Rightarrow> string" where
  "str_lower s = map lower_char s"

text \<open>
  The characters \<^verbatim>\<open>str.split()\<close> and \<^verbatim>\<open>str.strip()\<close> treat as whitespace:
  tab, line feed, vertical tab, form feed, carriage return, the four separators
  U+001C..U+001F, space, U+0085 and the no-break space.
\<close>

definition whitespace_chars :: string where
  "whitespace_chars =
     [CHR 0x09, CHR 0x0A, CHR 0x0B, CHR 0x0C, CHR 0x0D, CHR 0x1C, CHR 0x1D, CHR 0x1E,
      CHR 0x1F, CHR 0x20, CHR 0x85, CHR 0xA0]"

definition isspace :: "char \<Rightarrow> bool" where
  "isspace c = (c \<in> set whitespace_chars)"

text \<open>
  \<^verbatim>\<open>s.split()\<close> with no argument: the maximal runs of non-whitespace characters, in
  order. The first argument is the token being read.
\<close>

fun split_from :: "string \<Rightarrow> string \<Rightarrow> string list" where
  "split_from tok [] = (if tok = [] then [] else [tok])"
| "split_from tok (c # cs) =
     (if isspace c then (if tok = [] then split_from [] cs else tok # split_from [] cs)
      else split_from (tok @ [c]) cs)"

definition str_split :: "string \<Rightarrow> string list" where
  "str_split s = split_from [] s"

definition str_strip :: "string \<Rightarrow> string" where
  "str_strip s = rev (dropWhile isspace (rev (dropWhile isspace s)))"

text \<open>
  \<^verbatim>\<open>s.isdigit()\<close>: the string is not empty and each character is a digit. Below code
  point 256 the digits are 0..9 and the superscripts two, three and one
  (U+00B2, U+00B3, U+00B9).
\<close>

definition digit_chars :: string where
  "digit_chars = ''0123456789''"

definition superscript_digits :: string where
  "superscript_digits = [CHR 0xB2, CHR 0xB3, CHR 0xB9]"

definition str_isdigit :: "string \<Rightarrow> bool" where
  "str_isdigit s =
     (s \<noteq> [] \<and> list_all (\<lambda>c. c \<in> set digit_chars \<or> c \<in> set superscript_digits) s)"

definition digit_value :: "char \<Rightarrow> int" where
  "digit_value c =
     (case map_of (zip digit_chars [0, 1, 2, 3, 4, 5, 6, 7, 8, 9]) c of
        Some d \<Rightarrow> d | None \<Rightarrow> 0)"

text \<open>
  \<^verbatim>\<open>int(s)\<close> on a string of digit characters, which is where the endpoint calls it
  (behind \<^verbatim>\<open>isdigit()\<close>): the decimal value when every character is one of 0..9,
  \<^verbatim>\<open>ValueError\<close> otherwise (a superscript digit is a digit for \<^verbatim>\<open>isdigit\<close> and
  not a decimal for \<^verbatim>\<open>int\<close>). The interpreter converts at most 4300 digits (its default
  limit) between \<^verbatim>\<open>str\<close> and \<^verbatim>\<open>int\<close> and raises \<^verbatim>\<open>ValueError\<close> beyond.
\<close>

definition max_str_digits :: nat where
  "max_str_digits = 4300"

definition py_int :: "string \<Rightarrow> exn + int" where
  "py_int s =
     (if s \<noteq> [] \<and> list_all (\<lambda>c. c \<in> set digit_chars) s \<and> length s \<le> max_str_digits
      then Inr (foldl (\<lambda>a c. 10 * a + digit_value c) 0 s)
      else Inl ValueError)"

text \<open>\<^verbatim>\<open>str(n)\<close> for an integer, as the f-string renders it.\<close>

fun str_nat :: "nat \<Rightarrow> string" where
  "str_nat n =
     (if n < 10 then [digit_chars ! n]
      else str_nat (n div 10) @ [digit_chars ! (n mod 10)])"

definition str_int :: "int \<Rightarrow> string" where
  "str_int i = (if i < 0 then CHR ''-'' # str_nat (nat (- i)) else str_nat (nat i))"

definition py_str :: "int \<Rightarrow> exn + string" where
  "py_str i =
     (if length (str_nat (nat \<bar>i\<bar>)) \<le> max_str_digits then Inr (str_int i)
      else Inl ValueError)"

text \<open>\<^verbatim>\<open>sep.join(xs)\<close>.\<close>

fun str_join :: "string \<Rightarrow> string list \<Rightarrow> string" where
  "str_join sep [] = []"
| "str_join sep [x] = x"
| "str_join sep (x # y # ys) = x @ sep @ str_join sep (y # ys)"

subsection \<open>Data model\<close>

text \<open>The columns of \<^verbatim>\<open>JobPosting\<close> the endpoint reads; the two arrays are nullable.\<close>

record JobPosting =
  job_title :: string
  job_required_skills :: "string list option"
  job_preferred_skills :: "string list option"
  skills_embedding :: "real list"

record RoadmapRequest =
  current_skills :: "string list"
  target_role :: string
  target_salary :: "real option"
  experience_years :: "real option"

record LearningStep =
  step :: int
  title :: string
  description :: string
  estimated_duration :: string
  resources :: "string list"
  skills_gained :: "string list"

text \<open>
  \<^verbatim>\<open>RoadmapResponse\<close> without \<^verbatim>\<open>id\<close> and \<^verbatim>\<open>created_at\<close>, which the database
  assigns.
\<close>

record RoadmapResponse =
  response_target_role :: string
  response_current_skills :: "string list"
  skill_gaps :: "string list"
  recommended_skills :: "string list"
  learning_path :: "LearningStep list"
  estimated_timeline :: string
  confidence_score :: real

text \<open>The row \<^verbatim>\<open>CareerRoadmap(...)\<close> the endpoint stores.\<close>

record CareerRoadmap =
  row_current_skills :: "string list"
  row_target_role :: string
  row_target_salary :: "real option"
  row_skill_gaps :: "string list"
  row_recommended_skills :: "string list"
  row_learning_path :: "LearningStep list"
  row_estimated_timeline :: string
  row_confidence_score :: real

text \<open>What \<^verbatim>\<open>json.loads\<close> returns. An object keeps its members in the order read.\<close>

datatype json =
    JNull
  | JBool bool
  | JInt int
  | JFloat real
  | JStr string
  | JArr "json list"
  | JObj "(string \<times> json) list"

text \<open>The f-string of the prompt, as the values it interpolates into its fixed text.\<close>

record Prompt =
  prompt_target_role :: string
  prompt_current_skills :: string
  prompt_target_salary :: string
  prompt_experience :: string
  prompt_required :: string
  prompt_recommended :: string

text \<open>
  The collaborators.
  \<^item> \<^verbatim>\<open>encode\<close>: the sentence encoder behind \<^verbatim>\<open>generate_embedding\<close>.
  \<^item> \<^verbatim>\<open>db_query v keep n rows\<close>: the database's answer to
    \<^verbatim>\<open>db.query(JobPosting, distance).filter(keep).order_by("distance").limit(n).all()\<close>
    on the table \<open>rows\<close>, for the embedding \<open>v\<close>. The table carries an approximate
    (ivfflat) index on the embedding, so the answer need not hold the nearest rows, nor
    every row that passes the filter; the statement may also fail.
  \<^item> \<^verbatim>\<open>db_store\<close>: \<^verbatim>\<open>db.add\<close>, \<^verbatim>\<open>db.commit\<close> and \<^verbatim>\<open>db.refresh\<close> of the
    roadmap row; \<open>Some e\<close> when one of them raises \<open>e\<close>.
  \<^item> \<^verbatim>\<open>set_order\<close>: the order in which Python iterates over a set of strings.
  \<^item> \<^verbatim>\<open>gemini_reply k p\<close>: what the generative model does on attempt \<open>k\<close> for
    prompt \<open>p\<close>: it raises, or returns the text of its response (possibly empty).
  \<^item> \<^verbatim>\<open>json_loads\<close>: the JSON decoder. It returns the decoded value or raises:
    \<^verbatim>\<open>JSONDecodeError\<close> on a malformed text, and other exceptions too
    (\<^verbatim>\<open>RecursionError\<close> on deep nesting, \<^verbatim>\<open>ValueError\<close> on an over-long number).
  \<^item> \<^verbatim>\<open>coerce_int\<close>, \<^verbatim>\<open>coerce_str\<close>: what the validation library makes of a value
    that is not already an integer (a string) for an \<^verbatim>\<open>int\<close> (\<^verbatim>\<open>str\<close>) field;
    \<open>None\<close> is a validation error.
  \<^item> \<^verbatim>\<open>format_salary\<close>, \<^verbatim>\<open>format_float\<close>: the renderings \<^verbatim>\<open>{x:,.0f}\<close> and
    \<^verbatim>\<open>{x}\<close> of a float.
\<close>

record env =
  encode :: "string \<Rightarrow> exn + real list"
  db_query :: "real list \<Rightarrow> (JobPosting \<Rightarrow> bool) \<Rightarrow> nat \<Rightarrow> JobPosting list
                \<Rightarrow> exn + JobPosting list"
  db_store :: "CareerRoadmap \<Rightarrow> exn option"
  set_order :: "string set \<Rightarrow> string list"
  gemini_reply :: "nat \<Rightarrow> Prompt \<Rightarrow> exn + string"
  json_loads :: "string \<Rightarrow> exn + json"
  coerce_int :: "json \<Rightarrow> int option"
  coerce_str :: "json \<Rightarrow> string option"
  format_salary :: "real \<Rightarrow> string"
  format_float :: "real \<Rightarrow> string"

text \<open>What the body of the endpoint's \<^verbatim>\<open>try\<close> raises, and what the endpoint raises.\<close>

datatype raised = Http nat | Exc exn

datatype http_exception = HTTPException nat

subsection \<open>Retrieval\<close>

text \<open>
  \<^verbatim>\<open>EmbeddingService.generate_embedding\<close>: a blank text raises \<^verbatim>\<open>ValueError\<close>.
\<close>

definition generate_embedding :: "env \<Rightarrow> string \<Rightarrow> exn + real list" where
  "generate_embedding E text =
     (if text = [] \<or> str_strip text = [] then Inl ValueError else encode E text)"

text \<open>
  The database's \<^verbatim>\<open>LIKE\<close>: in the pattern, \<^verbatim>\<open>%\<close> stands for any sequence of
  characters, \<^verbatim>\<open>_\<close> for any one character, and a backslash makes the next pattern
  character stand for itself. \<^verbatim>\<open>ILIKE\<close> is \<^verbatim>\<open>LIKE\<close> on the lower-cased pattern
  and text.
\<close>

fun like_match :: "string \<Rightarrow> string \<Rightarrow> bool" where
  "like_match [] t = (t = [])"
| "like_match (p # ps) t =
     (if p = CHR ''%'' then
        like_match ps t \<or> (case t of [] \<Rightarrow> False | c # ts \<Rightarrow> like_match (p # ps) ts)
      else if p = CHR ''_'' then
        (case t of [] \<Rightarrow> False | c # ts \<Rightarrow> like_match ps ts)
      else if p = CHR 0x5C then
        (case ps of [] \<Rightarrow> False
         | q # qs \<Rightarrow> (case t of [] \<Rightarrow> False | c # ts \<Rightarrow> c = q \<and> like_match qs ts))
      else
        (case t of [] \<Rightarrow> False | c # ts \<Rightarrow> c = p \<and> like_match ps ts))"

definition ilike :: "string \<Rightarrow> string \<Rightarrow> bool" where
  "ilike s pattern = like_match (str_lower pattern) (str_lower s)"

text \<open>
  The filter of the first query,
  \<^verbatim>\<open>JobPosting.title.ilike(f"%{request.target_role}%")\<close>, and the rows of the table
  that pass it.
\<close>

definition title_filter :: "string \<Rightarrow> JobPosting \<Rightarrow> bool" where
  "title_filter role job = ilike (job_title job) (''%'' @ role @ ''%'')"

definition title_matches :: "string \<Rightarrow> JobPosting list \<Rightarrow> JobPosting list" where
  "title_matches role db = filter (title_filter role) db"

text \<open>
  \<^verbatim>\<open>similar_jobs\<close> after both queries: the answer to the query filtered by title
  (limit 10), or, when that answer is empty, the answer to the query over the whole
  table (limit 5).
\<close>

definition similar_jobs :: "env \<Rightarrow> real list \<Rightarrow> string \<Rightarrow> JobPosting list \<Rightarrow> exn + JobPosting list" where
  "similar_jobs E target_role_embedding role db =
     (case db_query E target_role_embedding (title_filter role) 10 db of
        Inl e \<Rightarrow> Inl e
      | Inr first_try \<Rightarrow>
          if first_try = [] then db_query E target_role_embedding (\<lambda>job. True) 5 db
          else Inr first_try)"

subsection \<open>Skill gaps\<close>

text \<open>The loop over \<^verbatim>\<open>similar_jobs\<close> that fills the two sets.\<close>

definition all_required_skills :: "JobPosting list \<Rightarrow> string set" where
  "all_required_skills jobs =
     foldl (\<lambda>acc job. case job_required_skills job of
                         None \<Rightarrow> acc
                       | Some skills \<Rightarrow> if skills = [] then acc else acc \<union> set skills)
       {} jobs"

definition all_preferred_skills :: "JobPosting list \<Rightarrow> string set" where
  "all_preferred_skills jobs =
     foldl (\<lambda>acc job. case job_preferred_skills job of
                         None \<Rightarrow> acc
                       | Some skills \<Rightarrow> if skills = [] then acc else acc \<union> set skills)
       {} jobs"

definition current_skills_set :: "string list \<Rightarrow> string set" where
  "current_skills_set skills = set (map str_lower skills)"

text \<open>
  \<^verbatim>\<open>[skill for skill in all_required_skills if skill.lower() not in current_skills_set]\<close>
  and \<^verbatim>\<open>list(all_preferred_skills - current_skills_set)\<close>.
\<close>

definition skill_gaps_of :: "env \<Rightarrow> string set \<Rightarrow> string set \<Rightarrow> string list" where
  "skill_gaps_of E required current =
     filter (\<lambda>skill. str_lower skill \<notin> current) (set_order E required)"

definition recommended_skills_of :: "env \<Rightarrow> string set \<Rightarrow> string set \<Rightarrow> string list" where
  "recommended_skills_of E preferred current = set_order E (preferred - current)"

subsection \<open>Generation\<close>

text \<open>
  The prompt. Formatting \<^verbatim>\<open>request.target_salary\<close> with \<^verbatim>\<open>:,.0f\<close> raises
  \<^verbatim>\<open>TypeError\<close> when the salary is \<^verbatim>\<open>None\<close>; \<^verbatim>\<open>request.experience_years\<close>
  has no format and renders \<^verbatim>\<open>None\<close> as text.
\<close>

definition build_prompt ::
  "env \<Rightarrow> RoadmapRequest \<Rightarrow> string list \<Rightarrow> string list \<Rightarrow> exn + Prompt" where
  "build_prompt E request gaps recommended =
     (case target_salary request of
        None \<Rightarrow> Inl TypeError
      | Some salary \<Rightarrow>
          Inr \<lparr> prompt_target_role = target_role request,
                prompt_current_skills = str_join '', '' (current_skills request),
                prompt_target_salary = format_salary E salary,
                prompt_experience =
                  (case experience_years request of
                     None \<Rightarrow> ''None'' | Some years \<Rightarrow> format_float E years),
                prompt_required = str_join '', '' (take 10 gaps),
                prompt_recommended = str_join '', '' (take 5 recommended) \<rparr>)"

text \<open>
  One call of the body of \<^verbatim>\<open>GeminiService.generate_content\<close>: an empty response text
  raises \<^verbatim>\<open>ValueError\<close>, and every exception is raised again.
\<close>

definition generate_attempt :: "env \<Rightarrow> nat \<Rightarrow> Prompt \<Rightarrow> exn + string" where
  "generate_attempt E k prompt =
     (case gemini_reply E k prompt of
        Inl e \<Rightarrow> Inl e
      | Inr text \<Rightarrow> if text = [] then Inl ValueError else Inr text)"

text \<open>
  \<^verbatim>\<open>generate_content\<close> under its decorator
  \<^verbatim>\<open>@retry(stop=stop_after_attempt(3), ..., reraise=True)\<close>: up to three attempts, and
  the exception of the third is raised.
\<close>

definition generate_content :: "env \<Rightarrow> Prompt \<Rightarrow> exn + string" where
  "generate_content E prompt =
     (case generate_attempt E 0 prompt of
        Inr text \<Rightarrow> Inr text
      | Inl _ \<Rightarrow>
          (case generate_attempt E 1 prompt of
             Inr text \<Rightarrow> Inr text
           | Inl _ \<Rightarrow> generate_attempt E 2 prompt))"

subsection \<open>Parsing the learning path\<close>

text \<open>
  \<^verbatim>\<open>re.search(r'\[.*\]', text, re.DOTALL)\<close>: the search starts at the leftmost
  \<^verbatim>\<open>[\<close>; with \<^verbatim>\<open>DOTALL\<close> the greedy \<^verbatim>\<open>.*\<close> runs to the end of the text and
  backs up to the last \<^verbatim>\<open>]\<close>. The match is \<^verbatim>\<open>json_match.group()\<close>; \<open>None\<close>
  when the text has no \<^verbatim>\<open>]\<close> after its first \<^verbatim>\<open>[\<close>.
\<close>

definition json_match :: "string \<Rightarrow> string option" where
  "json_match text =
     (case dropWhile (\<lambda>c. c \<noteq> CHR ''['') text of
        [] \<Rightarrow> None
      | bracket # rest \<Rightarrow>
          (case rev (dropWhile (\<lambda>c. c \<noteq> CHR '']'') (rev rest)) of
             [] \<Rightarrow> None
           | inside \<Rightarrow> Some (bracket # inside)))"

text \<open>The text handed to \<^verbatim>\<open>json.loads\<close>, and \<^verbatim>\<open>learning_path_data\<close>.\<close>

definition json_source :: "string \<Rightarrow> string" where
  "json_source text = (case json_match text of Some found \<Rightarrow> found | None \<Rightarrow> text)"

definition learning_path_data :: "env \<Rightarrow> string \<Rightarrow> exn + json" where
  "learning_path_data E text = json_loads E (json_source text)"

text \<open>
  \<^verbatim>\<open>for step in learning_path_data\<close>: a list gives its elements, an object its keys
  (each key once, in the order first read), a string its characters; nothing else can
  be iterated.
\<close>

fun iterate :: "json \<Rightarrow> exn + json list" where
  "iterate (JArr items) = Inr items"
| "iterate (JObj members) = Inr (map JStr (rev (remdups (rev (map fst members)))))"
| "iterate (JStr s) = Inr (map (\<lambda>c. JStr [c]) s)"
| "iterate _ = Inl TypeError"

text \<open>
  The keyword arguments of \<^verbatim>\<open>LearningStep(**step)\<close>: the members of the object, the
  last of two members with the same name.
\<close>

definition object_member :: "(string \<times> json) list \<Rightarrow> string \<Rightarrow> json option" where
  "object_member members name = map_of (rev members) name"

definition int_field :: "env \<Rightarrow> json \<Rightarrow> int option" where
  "int_field E v = (case v of JInt n \<Rightarrow> Some n | _ \<Rightarrow> coerce_int E v)"

definition str_field :: "env \<Rightarrow> json \<Rightarrow> string option" where
  "str_field E v = (case v of JStr s \<Rightarrow> Some s | _ \<Rightarrow> coerce_str E v)"

fun str_items :: "env \<Rightarrow> json list \<Rightarrow> string list option" where
  "str_items E [] = Some []"
| "str_items E (v # vs) =
     (case str_field E v of
        None \<Rightarrow> None
      | Some s \<Rightarrow> (case str_items E vs of None \<Rightarrow> None | Some ss \<Rightarrow> Some (s # ss)))"

text \<open>A \<^verbatim>\<open>List[str] = []\<close> field: absent, it is the empty list.\<close>

definition str_list_field :: "env \<Rightarrow> json option \<Rightarrow> string list option" where
  "str_list_field E v =
     (case v of
        None \<Rightarrow> Some []
      | Some (JArr items) \<Rightarrow> str_items E items
      | Some _ \<Rightarrow> None)"

text \<open>
  The validation of the schema \<^verbatim>\<open>LearningStep\<close>: \<^verbatim>\<open>step\<close>, \<^verbatim>\<open>title\<close>,
  \<^verbatim>\<open>description\<close> and \<^verbatim>\<open>estimated_duration\<close> are required, members the schema
  does not name are ignored.
\<close>

definition validate_step :: "env \<Rightarrow> (string \<times> json) list \<Rightarrow> LearningStep option" where
  "validate_step E members =
     do {
       v_step \<leftarrow> object_member members ''step'';
       v_title \<leftarrow> object_member members ''title'';
       v_description \<leftarrow> object_member members ''description'';
       v_duration \<leftarrow> object_member members ''estimated_duration'';
       n \<leftarrow> int_field E v_step;
       t \<leftarrow> str_field E v_title;
       d \<leftarrow> str_field E v_description;
       e \<leftarrow> str_field E v_duration;
       r \<leftarrow> str_list_field E (object_member members ''resources'');
       g \<leftarrow> str_list_field E (object_member members ''skills_gained'');
       Some \<lparr> step = n, title = t, description = d, estimated_duration = e,
              resources = r, skills_gained = g \<rparr>
     }"

text \<open>
  \<^verbatim>\<open>LearningStep(**step)\<close>: \<^verbatim>\<open>TypeError\<close> when \<^verbatim>\<open>step\<close> is not a mapping,
  a validation error when the mapping does not fit the schema.
\<close>

definition make_LearningStep :: "env \<Rightarrow> json \<Rightarrow> exn + LearningStep" where
  "make_LearningStep E v =
     (case v of
        JObj members \<Rightarrow>
          (case validate_step E members of None \<Rightarrow> Inl ValidationError | Some s \<Rightarrow> Inr s)
      | _ \<Rightarrow> Inl TypeError)"

text \<open>\<^verbatim>\<open>[LearningStep(**step) for step in learning_path_data]\<close> over the items.\<close>

fun make_steps :: "env \<Rightarrow> json list \<Rightarrow> exn + LearningStep list" where
  "make_steps E [] = Inr []"
| "make_steps E (v # vs) =
     (case make_LearningStep E v of
        Inl e \<Rightarrow> Inl e
      | Inr s \<Rightarrow> (case make_steps E vs of Inl e \<Rightarrow> Inl e | Inr ss \<Rightarrow> Inr (s # ss)))"

text \<open>The step of the \<^verbatim>\<open>except json.JSONDecodeError\<close> branch.\<close>

definition fallback_step :: "string list \<Rightarrow> LearningStep" where
  "fallback_step gaps =
     \<lparr> step = 1,
       title = ''Foundation Building'',
       description = ''Start by learning the core skills: '' @ str_join '', '' (take 3 gaps),
       estimated_duration = ''1-2 months'',
       resources = [''Online courses'', ''Documentation'', ''Practice projects''],
       skills_gained = take 3 gaps \<rparr>"

text \<open>
  The inner \<^verbatim>\<open>try\<close>: only \<^verbatim>\<open>json.JSONDecodeError\<close> is caught there; any other
  exception leaves it.
\<close>

definition parse_learning_path :: "env \<Rightarrow> string list \<Rightarrow> string \<Rightarrow> exn + LearningStep list" where
  "parse_learning_path E gaps text =
     (case learning_path_data E text of
        Inl e \<Rightarrow> if e = JSONDecodeError then Inr [fallback_step gaps] else Inl e
      | Inr data \<Rightarrow>
          (case iterate data of Inl e \<Rightarrow> Inl e | Inr items \<Rightarrow> make_steps E items))"

subsection \<open>Timeline and confidence\<close>

text \<open>
  The list comprehension under \<^verbatim>\<open>sum\<close>: for each step, first the condition
  \<^verbatim>\<open>step.estimated_duration.split()[0].isdigit()\<close>, then
  \<^verbatim>\<open>int(step.estimated_duration.split()[0])\<close>. Indexing an empty list raises
  \<^verbatim>\<open>IndexError\<close>.
\<close>

fun duration_numbers :: "LearningStep list \<Rightarrow> exn + int list" where
  "duration_numbers [] = Inr []"
| "duration_numbers (s # ss) =
     (case str_split (estimated_duration s) of
        [] \<Rightarrow> Inl IndexError
      | token # _ \<Rightarrow>
          if str_isdigit token then
            (case py_int token of
               Inl e \<Rightarrow> Inl e
             | Inr n \<Rightarrow>
                 (case duration_numbers ss of Inl e \<Rightarrow> Inl e | Inr ns \<Rightarrow> Inr (n # ns)))
          else duration_numbers ss)"

definition total_duration :: "LearningStep list \<Rightarrow> exn + int" where
  "total_duration steps =
     (case duration_numbers steps of Inl e \<Rightarrow> Inl e | Inr ns \<Rightarrow> Inr (sum_list ns))"

text \<open>
  \<^verbatim>\<open>f"{total_duration} weeks" if total_duration < 52 else f"{total_duration // 4} months"\<close>.
\<close>

definition timeline_text :: "int \<Rightarrow> exn + string" where
  "timeline_text weeks =
     (if weeks < 52 then
        (case py_str weeks of Inl e \<Rightarrow> Inl e | Inr digits \<Rightarrow> Inr (digits @ '' weeks''))
      else
        (case py_str (weeks div 4) of
           Inl e \<Rightarrow> Inl e | Inr digits \<Rightarrow> Inr (digits @ '' months'')))"

text \<open>
  \<^verbatim>\<open>len(current_skills_set & all_required_skills) / len(all_required_skills)\<close>,
  or \<^verbatim>\<open>0.0\<close> for an empty set.
\<close>

definition confidence_of :: "string set \<Rightarrow> string set \<Rightarrow> real" where
  "confidence_of current required =
     (if required \<noteq> {} then real (card (current \<inter> required)) / real (card required)
      else 0)"

subsection \<open>The endpoint\<close>

text \<open>
  The body of the outer \<^verbatim>\<open>try\<close> of \<^verbatim>\<open>generate_roadmap\<close>, from the embedding of
  the target role to the response. The roadmap is stored before the response is built,
  inside the \<^verbatim>\<open>try\<close>. The response repeats the values of the stored row; its
  \<^verbatim>\<open>id\<close> and \<^verbatim>\<open>created_at\<close>, which the database assigns, are not modelled.
\<close>

definition roadmap_body :: "env \<Rightarrow> RoadmapRequest \<Rightarrow> JobPosting list \<Rightarrow> raised + RoadmapResponse" where
  "roadmap_body E request db =
     (case generate_embedding E (target_role request) of
        Inl e \<Rightarrow> Inl (Exc e)
      | Inr target_role_embedding \<Rightarrow>
          (case similar_jobs E target_role_embedding (target_role request) db of
             Inl e \<Rightarrow> Inl (Exc e)
           | Inr jobs \<Rightarrow>
               if jobs = [] then Inl (Http 404)
               else
                 (let required = all_required_skills jobs;
                      preferred = all_preferred_skills jobs;
                      current = current_skills_set (current_skills request);
                      gaps = skill_gaps_of E required current;
                      recommended = recommended_skills_of E preferred current
                  in case build_prompt E request gaps recommended of
                       Inl e \<Rightarrow> Inl (Exc e)
                     | Inr prompt \<Rightarrow>
                         (case generate_content E prompt of
                            Inl e \<Rightarrow> Inl (Exc e)
                          | Inr learning_path_json \<Rightarrow>
                              (case parse_learning_path E gaps learning_path_json of
                                 Inl e \<Rightarrow> Inl (Exc e)
                               | Inr path \<Rightarrow>
                                   (case total_duration path of
                                      Inl e \<Rightarrow> Inl (Exc e)
                                    | Inr weeks \<Rightarrow>
                                        (case timeline_text weeks of
                                           Inl e \<Rightarrow> Inl (Exc e)
                                         | Inr timeline \<Rightarrow>
                                             (case db_store E
                                                \<lparr> row_current_skills = current_skills request,
                                                  row_target_role = target_role request,
                                                  row_target_salary = target_salary request,
                                                  row_skill_gaps = gaps,
                                                  row_recommended_skills = recommended,
                                                  row_learning_path = path,
                                                  row_estimated_timeline = timeline,
                                                  row_confidence_score =
                                                    confidence_of current required \<rparr> of
                                                Some e \<Rightarrow> Inl (Exc e)
                                              | None \<Rightarrow>
                                                  Inr \<lparr> response_target_role = target_role request,
                                                        response_current_skills =
                                                          current_skills request,
                                                        skill_gaps = gaps,
                                                        recommended_skills = recommended,
                                                        learning_path = path,
                                                        estimated_timeline = timeline,
                                                        confidence_score =
                                                          confidence_of current required \<rparr>))))))))"

text \<open>
  \<^verbatim>\<open>generate_roadmap\<close>: an \<^verbatim>\<open>HTTPException\<close> of the body is raised as it is, any
  other exception becomes an \<^verbatim>\<open>HTTPException\<close> with status 500.
\<close>

definition generate_roadmap ::
  "env \<Rightarrow> RoadmapRequest \<Rightarrow> JobPosting list \<Rightarrow> http_exception + RoadmapResponse" where
  "generate_roadmap E request db =
     (case roadmap_body E request db of
        Inl (Http status) \<Rightarrow> Inl (HTTPException status)
      | Inl (Exc e) \<Rightarrow> Inl (HTTPException 500)
      | Inr response \<Rightarrow> Inr response)"

subsection \<open>Stages of the endpoint\<close>

text \<open>
  Names for the intermediate values of \<^verbatim>\<open>generate_roadmap\<close>, to state properties of
  a run: the rows retrieved (or what the retrieval raises), the two skill lists
  computed from them, the prompt, and the row that is stored for a learning path and a
  timeline.
\<close>

definition retrieval :: "env \<Rightarrow> RoadmapRequest \<Rightarrow> JobPosting list \<Rightarrow> raised + JobPosting list" where
  "retrieval E request db =
     (case generate_embedding E (target_role request) of
        Inl e \<Rightarrow> Inl (Exc e)
      | Inr target_role_embedding \<Rightarrow>
          (case similar_jobs E target_role_embedding (target_role request) db of
             Inl e \<Rightarrow> Inl (Exc e)
           | Inr jobs \<Rightarrow> if jobs = [] then Inl (Http 404) else Inr jobs))"

definition gaps_of_jobs :: "env \<Rightarrow> RoadmapRequest \<Rightarrow> JobPosting list \<Rightarrow> string list" where
  "gaps_of_jobs E request jobs =
     skill_gaps_of E (all_required_skills jobs) (current_skills_set (current_skills request))"

definition recommended_of_jobs :: "env \<Rightarrow> RoadmapRequest \<Rightarrow> JobPosting list \<Rightarrow> string list" where
  "recommended_of_jobs E request jobs =
     recommended_skills_of E (all_preferred_skills jobs)
       (current_skills_set (current_skills request))"

definition prompt_of_jobs :: "env \<Rightarrow> RoadmapRequest \<Rightarrow> JobPosting list \<Rightarrow> exn + Prompt" where
  "prompt_of_jobs E request jobs =
     build_prompt E request (gaps_of_jobs E request jobs) (recommended_of_jobs E request jobs)"

definition roadmap_row ::
  "env \<Rightarrow> RoadmapRequest \<Rightarrow> JobPosting list \<Rightarrow> LearningStep list \<Rightarrow> string \<Rightarrow> CareerRoadmap" where
  "roadmap_row E request jobs path timeline =
     \<lparr> row_current_skills = current_skills request,
       row_target_role = target_role request,
       row_target_salary = target_salary request,
       row_skill_gaps = gaps_of_jobs E request jobs,
       row_recommended_skills = recommended_of_jobs E request jobs,
       row_learning_path = path,
       row_estimated_timeline = timeline,
       row_confidence_score =
         confidence_of (current_skills_set (current_skills request))
           (all_required_skills jobs) \<rparr>"

text \<open>
  What every answer of the database satisfies, exact or approximate: the rows returned
  are rows of the table that pass the filter, and there are at most as many as the
  limit.
\<close>

definition answers_from_table :: "env \<Rightarrow> bool" where
  "answers_from_table E =
     (\<forall>v keep n rows answer. db_query E v keep n rows = Inr answer \<longrightarrow>
        set answer \<subseteq> {job \<in> set rows. keep job} \<and> length answer \<le> n)"

subsection \<open>The specification's wording, for comparison\<close>

text \<open>
  The specification's extraction rule, in its words: the first balanced
  \<^verbatim>\<open>[...]\<close> span of the text. \<open>close_from d cs\<close> reads \<open>cs\<close> with \<open>d\<close> brackets
  open, up to the bracket that closes the last of them.
\<close>

fun close_from :: "nat \<Rightarrow> string \<Rightarrow> string option" where
  "close_from d [] = None"
| "close_from d (c # cs) =
     (if c = CHR ''['' then map_option ((#) c) (close_from (Suc d) cs)
      else if c = CHR '']'' then
        (if d \<le> 1 then Some [c] else map_option ((#) c) (close_from (d - 1) cs))
      else map_option ((#) c) (close_from d cs))"

fun first_balanced_span :: "string \<Rightarrow> string option" where
  "first_balanced_span [] = None"
| "first_balanced_span (c # cs) =
     (if c = CHR ''['' then
        (case close_from 1 cs of
           Some inside \<Rightarrow> Some (c # inside)
         | None \<Rightarrow> first_balanced_span cs)
      else first_balanced_span cs)"

text \<open>
  The specification's normalization of a list of skill names, in its words: trim
  whitespace, lower-case, drop the empty string.
\<close>

definition spec_normalize :: "string list \<Rightarrow> string set" where
  "spec_normalize names =
     set (filter (\<lambda>name. name \<noteq> []) (map (\<lambda>name. str_lower (str_strip name)) names))"

text \<open>The characters that are not literal in a \<^verbatim>\<open>LIKE\<close> pattern.\<close>

definition pattern_chars :: string where
  "pattern_chars = [CHR ''%'', CHR ''_'', CHR 0x5C]"

text \<open>
  The specification's contribution of one step to the timeline, in its words: the
  leading whitespace-delimited token of the duration when that token is an integer, and
  0 for a duration that does not start with an integer token.
\<close>

definition leading_weeks :: "string \<Rightarrow> int" where
  "leading_weeks duration =
     (case str_split duration of
        [] \<Rightarrow> 0
      | token # _ \<Rightarrow>
          if str_isdigit token then (case py_int token of Inr n \<Rightarrow> n | Inl _ \<Rightarrow> 0) else 0)"

text \<open>
  The durations on which the timeline's comprehension raises nothing: there is a first
  token, and when it consists of digits they are decimal digits 0..9, at most 4300 of
  them.
\<close>

definition readable_duration :: "string \<Rightarrow> bool" where
  "readable_duration duration =
     (case str_split duration of
        [] \<Rightarrow> False
      | token # _ \<Rightarrow>
          \<not> str_isdigit token
          \<or> (list_all (\<lambda>c. c \<in> set digit_chars) token \<and> length token \<le> max_str_digits))"

subsection \<open>Sample data\<close>

text \<open>
  Concrete rows, requests and collaborators on which the general statements below are
  instantiated. \<open>listing order\<close> is a set iteration order: the members of the set in the
  order of a fixed list. The sample decoder agrees with \<^verbatim>\<open>json.loads\<close> on the texts
  it is given here. The sample database answers a query exactly (the rows that pass the
  filter, nearest first, up to the limit) and, as the real one, cannot store a text
  that holds a NUL character.
\<close>

definition exact_query ::
  "(real list \<Rightarrow> real list \<Rightarrow> real) \<Rightarrow> real list \<Rightarrow> (JobPosting \<Rightarrow> bool) \<Rightarrow> nat
   \<Rightarrow> JobPosting list \<Rightarrow> exn + JobPosting list" where
  "exact_query distance v keep n rows =
     Inr (take n (sort_key (\<lambda>job. distance (skills_embedding job) v) (filter keep rows)))"

definition sample_distance :: "real list \<Rightarrow> real list \<Rightarrow> real" where
  "sample_distance a b = (if a = b then 0 else 1)"

definition sample_store :: "CareerRoadmap \<Rightarrow> exn option" where
  "sample_store row =
     (if list_ex (\<lambda>field. CHR 0x00 \<in> set field)
           (row_target_role row # row_current_skills row)
      then Some DatabaseError else None)"

definition listing :: "string list \<Rightarrow> string set \<Rightarrow> string list" where
  "listing order S = filter (\<lambda>x. x \<in> S) order"

definition sample_order :: "string list" where
  "sample_order = [''Kubernetes'', ''Terraform'', ''Go'', ''Python'', ''Docker'', ''PyTorch'']"

definition plain_text :: string where
  "plain_text = ''I can not produce a roadmap right now.''"

definition steps_text :: string where
  \<open>steps_text = ''[{"step": 5, "title": "Deploy", "description": "Ship", "estimated_duration": "2 weeks"}, {"step": 3, "title": "Learn", "description": "Study", "estimated_duration": "3 weeks"}]''\<close>

definition steps_json :: json where
  "steps_json =
     JArr [JObj [(''step'', JInt 5), (''title'', JStr ''Deploy''), (''description'', JStr ''Ship''),
                 (''estimated_duration'', JStr ''2 weeks'')],
           JObj [(''step'', JInt 3), (''title'', JStr ''Learn''), (''description'', JStr ''Study''),
                 (''estimated_duration'', JStr ''3 weeks'')]]"

definition untitled_text :: string where
  \<open>untitled_text = ''[{"step": 1, "description": "Study", "estimated_duration": "2 weeks"}]''\<close>

definition untitled_json :: json where
  "untitled_json =
     JArr [JObj [(''step'', JInt 1), (''description'', JStr ''Study''),
                 (''estimated_duration'', JStr ''2 weeks'')]]"

definition blank_duration_text :: string where
  \<open>blank_duration_text = ''[{"step": 1, "title": "Learn", "description": "Study", "estimated_duration": ""}]''\<close>

definition blank_duration_json :: json where
  "blank_duration_json =
     JArr [JObj [(''step'', JInt 1), (''title'', JStr ''Learn''), (''description'', JStr ''Study''),
                 (''estimated_duration'', JStr [])]]"

definition sample_loads :: "string \<Rightarrow> exn + json" where
  "sample_loads s =
     (if s = steps_text then Inr steps_json
      else if s = untitled_text then Inr untitled_json
      else if s = blank_duration_text then Inr blank_duration_json
      else Inl JSONDecodeError)"

definition sample_env :: "string list \<Rightarrow> (nat \<Rightarrow> Prompt \<Rightarrow> exn + string) \<Rightarrow> env" where
  "sample_env order reply =
     \<lparr> encode = (\<lambda>text. Inr [1, 0]),
       db_query = exact_query sample_distance,
       db_store = sample_store,
       set_order = listing order,
       gemini_reply = reply,
       json_loads = sample_loads,
       coerce_int = (\<lambda>v. None),
       coerce_str = (\<lambda>v. None),
       format_salary = (\<lambda>x. ''120,000''),
       format_float = (\<lambda>x. ''3.0'') \<rparr>"

definition answering :: "string \<Rightarrow> nat \<Rightarrow> Prompt \<Rightarrow> exn + string" where
  "answering text k prompt = Inr text"

definition unavailable :: "nat \<Rightarrow> Prompt \<Rightarrow> exn + string" where
  "unavailable k prompt = Inl ServiceError"

definition devops_job :: JobPosting where
  "devops_job =
     \<lparr> job_title = ''DevOps Engineer'',
       job_required_skills = Some [''Kubernetes'', ''Terraform'', ''Go''],
       job_preferred_skills = Some [''Python'', ''Docker''],
       skills_embedding = [1, 0] \<rparr>"

definition backend_job :: JobPosting where
  "backend_job =
     \<lparr> job_title = ''Backend Engineer'',
       job_required_skills = Some [''Python'', ''Docker''],
       job_preferred_skills = None,
       skills_embedding = [0, 1] \<rparr>"

definition data_job :: JobPosting where
  "data_job =
     \<lparr> job_title = ''Data Engineer'',
       job_required_skills = Some [''Python''],
       job_preferred_skills = Some [],
       skills_embedding = [0, 1] \<rparr>"

definition sample_request :: "string \<Rightarrow> string list \<Rightarrow> RoadmapRequest" where
  "sample_request role skills =
     \<lparr> current_skills = skills, target_role = role, target_salary = Some 120000,
       experience_years = Some 3 \<rparr>"

definition blank_duration_step :: LearningStep where
  "blank_duration_step =
     \<lparr> step = 1, title = ''Learn'', description = ''Study'', estimated_duration = [],
       resources = [], skills_gained = [] \<rparr>"

definition weeks_step :: "string \<Rightarrow> LearningStep" where
  "weeks_step duration =
     \<lparr> step = 1, title = ''Learn'', description = ''Study'', estimated_duration = duration,
       resources = [], skills_gained = [] \<rparr>"

definition sample_prompt :: Prompt where
  "sample_prompt =
     \<lparr> prompt_target_role = ''DevOps'',
       prompt_current_skills = ''Python'',
       prompt_target_salary = ''120,000'',
       prompt_experience = ''3.0'',
       prompt_required = ''Kubernetes, Terraform, Go'',
       prompt_recommended = ''Python, Docker'' \<rparr>"

section \<open>Properties\<close>

declare str_nat.simps [simp del]

lemmas str_defs = str_lower_def lower_char_def upper_chars_def lower_chars_def
  isspace_def whitespace_chars_def str_split_def str_strip_def str_isdigit_def digit_chars_def
  superscript_digits_def digit_value_def py_int_def max_str_digits_def py_str_def str_int_def
  str_nat.simps

subsection \<open>The endpoint by stages\<close>

lemma retrieval_Inl_body:
  "retrieval E request db = Inl x \<Longrightarrow> roadmap_body E request db = Inl x"
  by (auto simp: retrieval_def roadmap_body_def Let_def split: sum.splits if_splits)

lemma retrieval_Inr_body:
  "retrieval E request db = Inr jobs \<Longrightarrow>
   roadmap_body E request db =
     (case prompt_of_jobs E request jobs of
        Inl e \<Rightarrow> Inl (Exc e)
      | Inr prompt \<Rightarrow>
          (case generate_content E prompt of
             Inl e \<Rightarrow> Inl (Exc e)
           | Inr text \<Rightarrow>
               (case parse_learning_path E (gaps_of_jobs E request jobs) text of
                  Inl e \<Rightarrow> Inl (Exc e)
                | Inr path \<Rightarrow>
                    (case total_duration path of
                       Inl e \<Rightarrow> Inl (Exc e)
                     | Inr weeks \<Rightarrow>
                         (case timeline_text weeks of
                            Inl e \<Rightarrow> Inl (Exc e)
                          | Inr timeline \<Rightarrow>
                              (case db_store E (roadmap_row E request jobs path timeline) of
                                 Some e \<Rightarrow> Inl (Exc e)
                               | None \<Rightarrow>
                                   Inr \<lparr> response_target_role = target_role request,
                                         response_current_skills = current_skills request,
                                         skill_gaps = gaps_of_jobs E request jobs,
                                         recommended_skills =
                                           recommended_of_jobs E request jobs,
                                         learning_path = path,
                                         estimated_timeline = timeline,
                                         confidence_score =
                                           confidence_of
                                             (current_skills_set (current_skills request))
                                             (all_required_skills jobs) \<rparr>))))))"
  by (auto simp: retrieval_def roadmap_body_def prompt_of_jobs_def gaps_of_jobs_def
      recommended_of_jobs_def roadmap_row_def Let_def
      split: sum.splits if_splits option.splits)

lemma no_404_after_retrieval:
  "retrieval E request db = Inr jobs \<Longrightarrow>
   generate_roadmap E request db \<noteq> Inl (HTTPException 404)"
  by (auto simp: generate_roadmap_def retrieval_Inr_body
      split: sum.splits raised.splits option.splits)

subsection \<open>The fallback path\<close>

lemma total_duration_fallback: "total_duration [fallback_step gaps] = Inr 0"
  by (simp add: total_duration_def fallback_step_def str_defs)

lemma timeline_text_0: "timeline_text 0 = Inr ''0 weeks''"
  by (simp add: timeline_text_def str_defs)

lemma fallback_run:
  assumes "retrieval E request db = Inr jobs"
    and "prompt_of_jobs E request jobs = Inr prompt"
    and "generate_content E prompt = Inr text"
    and "learning_path_data E text = Inl JSONDecodeError"
    and "db_store E (roadmap_row E request jobs
           [fallback_step (gaps_of_jobs E request jobs)] ''0 weeks'') = None"
  shows "generate_roadmap E request db =
     Inr \<lparr> response_target_role = target_role request,
           response_current_skills = current_skills request,
           skill_gaps = gaps_of_jobs E request jobs,
           recommended_skills = recommended_of_jobs E request jobs,
           learning_path = [fallback_step (gaps_of_jobs E request jobs)],
           estimated_timeline = ''0 weeks'',
           confidence_score =
             confidence_of (current_skills_set (current_skills request))
               (all_required_skills jobs) \<rparr>"
  using assms
  by (simp add: generate_roadmap_def retrieval_Inr_body parse_learning_path_def
      total_duration_fallback timeline_text_0)

text \<open>
  The store sits inside the outer \<^verbatim>\<open>try\<close>: when it raises, the finished roadmap is
  lost and the endpoint answers 500.
\<close>

lemma store_failure_run:
  assumes "retrieval E request db = Inr jobs"
    and "prompt_of_jobs E request jobs = Inr prompt"
    and "generate_content E prompt = Inr text"
    and "parse_learning_path E (gaps_of_jobs E request jobs) text = Inr path"
    and "total_duration path = Inr weeks"
    and "timeline_text weeks = Inr timeline"
    and "db_store E (roadmap_row E request jobs path timeline) = Some e"
  shows "generate_roadmap E request db = Inl (HTTPException 500)"
  using assms by (simp add: generate_roadmap_def retrieval_Inr_body)

text \<open>
  Only \<^verbatim>\<open>json.JSONDecodeError\<close> reaches the fallback: any other exception of the
  decoder passes the inner handler and becomes status 500.
\<close>

lemma decoder_failure_run:
  assumes "retrieval E request db = Inr jobs"
    and "prompt_of_jobs E request jobs = Inr prompt"
    and "generate_content E prompt = Inr text"
    and "learning_path_data E text = Inl e"
    and "e \<noteq> JSONDecodeError"
  shows "generate_roadmap E request db = Inl (HTTPException 500)"
  using assms
  by (simp add: generate_roadmap_def retrieval_Inr_body parse_learning_path_def)

lemma sample_retrieval:
  "retrieval (sample_env sample_order reply) (sample_request ''DevOps'' [''Python''])
     [backend_job, devops_job] = Inr [devops_job]"
  by code_simp

lemma sample_gaps:
  "gaps_of_jobs (sample_env sample_order reply) (sample_request ''DevOps'' [''Python''])
     [devops_job] = [''Kubernetes'', ''Terraform'', ''Go'']"
  by code_simp

lemma sample_prompt_of_jobs:
  "prompt_of_jobs (sample_env sample_order reply) (sample_request ''DevOps'' [''Python''])
     [devops_job] = Inr sample_prompt"
  by code_simp

lemma sample_plain_reply:
  "generate_content (sample_env sample_order (answering plain_text)) sample_prompt
     = Inr plain_text"
  by (simp add: generate_content_def generate_attempt_def sample_env_def answering_def
      plain_text_def)

lemma sample_plain_undecodable:
  "learning_path_data (sample_env sample_order reply) plain_text = Inl JSONDecodeError"
  by code_simp

lemma sample_fallback_stored:
  "db_store (sample_env sample_order reply)
     (roadmap_row (sample_env sample_order reply) (sample_request ''DevOps'' [''Python''])
        [devops_job]
        [fallback_step (gaps_of_jobs (sample_env sample_order reply)
           (sample_request ''DevOps'' [''Python'']) [devops_job])] ''0 weeks'') = None"
  by code_simp

text \<open>
  Claim C4 says that whenever the generator's output fails to parse the roadmap's
  learning path is the single fallback step, and the specification counts as parse
  failures a malformed text, a step object that lacks a required field, and a generator
  that fails or answers with nothing. For the DevOps request, whose gap skills are
  Kubernetes, Terraform and Go, there is no roadmap and no fallback step in these runs:
  the generator raises on every attempt; the generator returns an empty text; the
  generator returns an array whose step object has no title (the decoder accepts the
  text and the validation of the step raises). The last run is the specification's own
  example, a text that is not JSON, for a request whose second known skill holds a NUL
  character: the fallback roadmap is computed but the database refuses to store it.
\<close>

theorem C4_counterexample:
  "gaps_of_jobs (sample_env sample_order unavailable) (sample_request ''DevOps'' [''Python''])
      [devops_job] = [''Kubernetes'', ''Terraform'', ''Go'']
   \<and> roadmap_body (sample_env sample_order unavailable)
        (sample_request ''DevOps'' [''Python'']) [backend_job, devops_job]
      = Inl (Exc ServiceError)
   \<and> roadmap_body (sample_env sample_order (answering []))
        (sample_request ''DevOps'' [''Python'']) [backend_job, devops_job]
      = Inl (Exc ValueError)
   \<and> learning_path_data (sample_env sample_order (answering untitled_text)) untitled_text
      = Inr untitled_json
   \<and> parse_learning_path (sample_env sample_order (answering untitled_text))
        [''Kubernetes'', ''Terraform'', ''Go''] untitled_text = Inl ValidationError
   \<and> roadmap_body (sample_env sample_order (answering untitled_text))
        (sample_request ''DevOps'' [''Python'']) [backend_job, devops_job]
      = Inl (Exc ValidationError)
   \<and> parse_learning_path (sample_env sample_order (answering plain_text))
        [''Kubernetes'', ''Terraform'', ''Go''] plain_text
      = Inr [fallback_step [''Kubernetes'', ''Terraform'', ''Go'']]
   \<and> roadmap_body (sample_env sample_order (answering plain_text))
        (sample_request ''DevOps'' [''Python'', [CHR 0x00]]) [backend_job, devops_job]
      = Inl (Exc DatabaseError)"
  by code_simp

text \<open>
  Claim C4, amended: "fails to parse" is the failure the endpoint handles, the JSON
  decoder rejecting the text handed to it, and the roadmap is stored. Then the
  roadmap's learning path is exactly one step, with title "Foundation Building",
  duration "1-2 months" and, as skills gained, the first three skills of the computed
  gap list. The other hypotheses name the run: the retrieval returned rows, the prompt
  was built, and the generator returned a text.
\<close>

theorem C4_fallback_step:
  assumes "retrieval E request db = Inr jobs"
    and "prompt_of_jobs E request jobs = Inr prompt"
    and "generate_content E prompt = Inr text"
    and "learning_path_data E text = Inl JSONDecodeError"
    and "db_store E (roadmap_row E request jobs
           [fallback_step (gaps_of_jobs E request jobs)] ''0 weeks'') = None"
  shows "\<exists>r s. generate_roadmap E request db = Inr r
           \<and> skill_gaps r = gaps_of_jobs E request jobs
           \<and> learning_path r = [s]
           \<and> step s = 1
           \<and> title s = ''Foundation Building''
           \<and> estimated_duration s = ''1-2 months''
           \<and> skills_gained s = take 3 (skill_gaps r)"
  using fallback_run[OF assms] by (simp add: fallback_step_def)

text \<open>
  The specification's example: the gap skills are Kubernetes, Terraform and Go, and the
  generator returns a text that is not JSON.
\<close>

theorem C4_fallback_step_witness:
  "retrieval (sample_env sample_order (answering plain_text))
       (sample_request ''DevOps'' [''Python'']) [backend_job, devops_job] = Inr [devops_job]
   \<and> generate_content (sample_env sample_order (answering plain_text)) sample_prompt
       = Inr plain_text
   \<and> learning_path_data (sample_env sample_order (answering plain_text)) plain_text
       = Inl JSONDecodeError
   \<and> db_store (sample_env sample_order (answering plain_text))
       (roadmap_row (sample_env sample_order (answering plain_text))
          (sample_request ''DevOps'' [''Python'']) [devops_job]
          [fallback_step [''Kubernetes'', ''Terraform'', ''Go'']] ''0 weeks'') = None
   \<and> (\<exists>r s. generate_roadmap (sample_env sample_order (answering plain_text))
              (sample_request ''DevOps'' [''Python'']) [backend_job, devops_job] = Inr r
         \<and> skill_gaps r = [''Kubernetes'', ''Terraform'', ''Go'']
         \<and> learning_path r = [s]
         \<and> title s = ''Foundation Building''
         \<and> estimated_duration s = ''1-2 months''
         \<and> skills_gained s = [''Kubernetes'', ''Terraform'', ''Go''])"
proof -
  let ?E = "sample_env sample_order (answering plain_text)"
  have d: "db_store ?E (roadmap_row ?E (sample_request ''DevOps'' [''Python'']) [devops_job]
             [fallback_step [''Kubernetes'', ''Terraform'', ''Go'']] ''0 weeks'') = None"
    using sample_fallback_stored[of "answering plain_text"] by (simp only: sample_gaps)
  from C4_fallback_step[OF sample_retrieval sample_prompt_of_jobs sample_plain_reply
      sample_plain_undecodable sample_fallback_stored]
  obtain r s where
    r: "generate_roadmap ?E (sample_request ''DevOps'' [''Python'']) [backend_job, devops_job]
          = Inr r"
    and g: "skill_gaps r = [''Kubernetes'', ''Terraform'', ''Go'']"
    and s: "learning_path r = [s]" "title s = ''Foundation Building''"
      "estimated_duration s = ''1-2 months''" "skills_gained s = take 3 (skill_gaps r)"
    by (auto simp: sample_gaps)
  from s(4) g have "skills_gained s = [''Kubernetes'', ''Terraform'', ''Go'']" by simp
  with r g s(1-3) d sample_retrieval sample_plain_reply sample_plain_undecodable
  show ?thesis by blast
qed

subsection \<open>What the generator can do to a run\<close>

lemma generator_failure_run:
  assumes "retrieval E request db = Inr jobs"
    and "prompt_of_jobs E request jobs = Inr prompt"
    and "generate_content E prompt = Inl e"
  shows "generate_roadmap E request db = Inl (HTTPException 500)"
  using assms by (simp add: generate_roadmap_def retrieval_Inr_body)

lemma generate_content_Inl:
  assumes "\<forall>k<3. \<exists>e. generate_attempt E k prompt = Inl e"
  shows "\<exists>e. generate_content E prompt = Inl e"
proof -
  from assms have "\<exists>e. generate_attempt E 0 prompt = Inl e" by simp
  moreover from assms have "\<exists>e. generate_attempt E 1 prompt = Inl e" by simp
  moreover from assms have "\<exists>e. generate_attempt E 2 prompt = Inl e" by simp
  ultimately show ?thesis by (auto simp: generate_content_def)
qed

lemma failure_is_500:
  "retrieval E request db = Inr jobs \<Longrightarrow> generate_roadmap E request db = Inl h \<Longrightarrow>
   h = HTTPException 500"
  by (auto simp: generate_roadmap_def retrieval_Inr_body
      split: sum.splits raised.splits option.splits)

text \<open>
  Claim C1 says that once the retrieval has returned rows the endpoint never fails,
  whatever the generator does. It fails, with status 500, in each of these runs: the
  generator raises on every attempt; the generator returns an empty text; the generator
  returns an array whose step object has no title. In all three the retrieval returned
  the row of the DevOps posting. In the last run the generator returns a text that is
  not JSON and the fallback roadmap is computed, but a known skill holds a NUL character
  and the database refuses to store the roadmap.
\<close>

theorem C1_counterexample:
  "retrieval (sample_env sample_order unavailable) (sample_request ''DevOps'' [''Python''])
      [backend_job, devops_job] = Inr [devops_job]
   \<and> generate_roadmap (sample_env sample_order unavailable)
        (sample_request ''DevOps'' [''Python'']) [backend_job, devops_job]
       = Inl (HTTPException 500)
   \<and> generate_roadmap (sample_env sample_order (answering []))
        (sample_request ''DevOps'' [''Python'']) [backend_job, devops_job]
       = Inl (HTTPException 500)
   \<and> generate_roadmap (sample_env sample_order (answering untitled_text))
        (sample_request ''DevOps'' [''Python'']) [backend_job, devops_job]
       = Inl (HTTPException 500)
   \<and> generate_roadmap (sample_env sample_order (answering plain_text))
        (sample_request ''DevOps'' [''Python'', [CHR 0x00]]) [backend_job, devops_job]
       = Inl (HTTPException 500)"
  by code_simp

text \<open>
  Claim C1, amended. For a run in which the retrieval returned rows and the prompt was
  built (the request carries a target salary):
  \<^item> when the generator returns a text, the JSON decoder rejects what is extracted from
    it (\<^verbatim>\<open>json.JSONDecodeError\<close>) and the roadmap is stored, the endpoint returns a
    complete roadmap whose learning path is the fallback step;
  \<^item> when the generator fails on each of its three attempts (it raises, or its response
    is empty), the endpoint fails with status 500: a generator failure is not turned into
    the fallback roadmap;
  \<^item> whenever the endpoint fails in such a run, it is with status 500, never 404.
\<close>

theorem C1_generation_outcomes:
  assumes "retrieval E request db = Inr jobs"
    and "prompt_of_jobs E request jobs = Inr prompt"
  shows "(\<forall>text. generate_content E prompt = Inr text \<longrightarrow>
            learning_path_data E text = Inl JSONDecodeError \<longrightarrow>
            db_store E (roadmap_row E request jobs
              [fallback_step (gaps_of_jobs E request jobs)] ''0 weeks'') = None \<longrightarrow>
            (\<exists>r. generate_roadmap E request db = Inr r
               \<and> skill_gaps r = gaps_of_jobs E request jobs
               \<and> recommended_skills r = recommended_of_jobs E request jobs
               \<and> learning_path r = [fallback_step (gaps_of_jobs E request jobs)]
               \<and> estimated_timeline r = ''0 weeks''))
       \<and> ((\<forall>k<3. \<exists>e. generate_attempt E k prompt = Inl e) \<longrightarrow>
            generate_roadmap E request db = Inl (HTTPException 500))
       \<and> (\<forall>h. generate_roadmap E request db = Inl h \<longrightarrow> h = HTTPException 500)"
proof (intro conjI allI impI)
  fix t
  assume t: "generate_content E prompt = Inr t"
    and u: "learning_path_data E t = Inl JSONDecodeError"
    and d: "db_store E (roadmap_row E request jobs
              [fallback_step (gaps_of_jobs E request jobs)] ''0 weeks'') = None"
  from fallback_run[OF assms t u d]
  show "\<exists>r. generate_roadmap E request db = Inr r
          \<and> skill_gaps r = gaps_of_jobs E request jobs
          \<and> recommended_skills r = recommended_of_jobs E request jobs
          \<and> learning_path r = [fallback_step (gaps_of_jobs E request jobs)]
          \<and> estimated_timeline r = ''0 weeks''"
    by simp
next
  assume "\<forall>k<3. \<exists>e. generate_attempt E k prompt = Inl e"
  then obtain e where e: "generate_content E prompt = Inl e"
    using generate_content_Inl by blast
  from generator_failure_run[OF assms e]
  show "generate_roadmap E request db = Inl (HTTPException 500)" .
next
  fix h
  assume "generate_roadmap E request db = Inl h"
  with failure_is_500[OF assms(1)] show "h = HTTPException 500" by blast
qed

theorem C1_generation_outcomes_witness:
  "retrieval (sample_env sample_order (answering plain_text))
       (sample_request ''DevOps'' [''Python'']) [backend_job, devops_job] = Inr [devops_job]
   \<and> prompt_of_jobs (sample_env sample_order (answering plain_text))
       (sample_request ''DevOps'' [''Python'']) [devops_job] = Inr sample_prompt
   \<and> generate_content (sample_env sample_order (answering plain_text)) sample_prompt
       = Inr plain_text
   \<and> learning_path_data (sample_env sample_order (answering plain_text)) plain_text
       = Inl JSONDecodeError
   \<and> db_store (sample_env sample_order (answering plain_text))
       (roadmap_row (sample_env sample_order (answering plain_text))
          (sample_request ''DevOps'' [''Python'']) [devops_job]
          [fallback_step [''Kubernetes'', ''Terraform'', ''Go'']] ''0 weeks'') = None
   \<and> (\<exists>r. generate_roadmap (sample_env sample_order (answering plain_text))
              (sample_request ''DevOps'' [''Python'']) [backend_job, devops_job] = Inr r
         \<and> learning_path r = [fallback_step [''Kubernetes'', ''Terraform'', ''Go'']]
         \<and> estimated_timeline r = ''0 weeks'')
   \<and> generate_attempt (sample_env sample_order unavailable) 0 sample_prompt = Inl ServiceError
   \<and> generate_attempt (sample_env sample_order unavailable) 1 sample_prompt = Inl ServiceError
   \<and> generate_attempt (sample_env sample_order unavailable) 2 sample_prompt = Inl ServiceError
   \<and> generate_roadmap (sample_env sample_order unavailable)
        (sample_request ''DevOps'' [''Python'']) [backend_job, devops_job]
       = Inl (HTTPException 500)"
proof -
  let ?P = "sample_env sample_order (answering plain_text)"
  let ?U = "sample_env sample_order unavailable"
  have u: "generate_attempt ?U k sample_prompt = Inl ServiceError" for k
    by (simp add: generate_attempt_def sample_env_def unavailable_def)
  have d: "db_store ?P (roadmap_row ?P (sample_request ''DevOps'' [''Python'']) [devops_job]
             [fallback_step [''Kubernetes'', ''Terraform'', ''Go'']] ''0 weeks'') = None"
    using sample_fallback_stored[of "answering plain_text"] by (simp only: sample_gaps)
  from C1_generation_outcomes[OF sample_retrieval sample_prompt_of_jobs, of "answering plain_text"]
    sample_plain_reply sample_plain_undecodable sample_fallback_stored
  have "\<exists>r. generate_roadmap ?P (sample_request ''DevOps'' [''Python'']) [backend_job, devops_job]
            = Inr r
         \<and> learning_path r = [fallback_step [''Kubernetes'', ''Terraform'', ''Go'']]
         \<and> estimated_timeline r = ''0 weeks''"
    by (auto simp: sample_gaps)
  moreover
  from C1_generation_outcomes[OF sample_retrieval sample_prompt_of_jobs, of unavailable] u
  have "generate_roadmap ?U (sample_request ''DevOps'' [''Python'']) [backend_job, devops_job]
      = Inl (HTTPException 500)"
    by blast
  ultimately show ?thesis
    using sample_retrieval sample_prompt_of_jobs sample_plain_reply sample_plain_undecodable u d
    by blast
qed

subsection \<open>The extracted span\<close>

lemma json_match_span:
  assumes "CHR ''['' \<notin> set pre" and "CHR '']'' \<notin> set post"
  shows "json_match (pre @ CHR ''['' # mid @ CHR '']'' # post) = Some (CHR ''['' # mid @ [CHR '']''])"
proof -
  have a: "dropWhile (\<lambda>c. c \<noteq> CHR ''['') (pre @ CHR ''['' # mid @ CHR '']'' # post)
      = CHR ''['' # mid @ CHR '']'' # post"
    using assms(1) by (subst dropWhile_append2) auto
  have "dropWhile (\<lambda>c. c \<noteq> CHR '']'') (rev post @ CHR '']'' # rev mid) = CHR '']'' # rev mid"
    using assms(2) by (subst dropWhile_append2) auto
  then have b: "dropWhile (\<lambda>c. c \<noteq> CHR '']'') (rev (mid @ CHR '']'' # post)) = CHR '']'' # rev mid"
    by simp
  show ?thesis
    unfolding json_match_def a list.case b by (cases mid) simp_all
qed

lemma first_last_bracket:
  assumes "s = a @ CHR ''['' # b @ CHR '']'' # c"
  shows "\<exists>pre mid post. s = pre @ CHR ''['' # mid @ CHR '']'' # post
           \<and> CHR ''['' \<notin> set pre \<and> CHR '']'' \<notin> set post"
proof -
  from assms have "CHR ''['' \<in> set s" by simp
  then obtain pre r where s: "s = pre @ CHR ''['' # r" and pre: "CHR ''['' \<notin> set pre"
    by (meson split_list_first)
  from assms s have "a @ CHR ''['' # b @ CHR '']'' # c = pre @ CHR ''['' # r" by simp
  with pre have "CHR '']'' \<in> set r"
    by (auto simp: append_eq_append_conv2 Cons_eq_append_conv append_eq_Cons_conv)
  then obtain mid post where r: "r = mid @ CHR '']'' # post" and post: "CHR '']'' \<notin> set post"
    by (meson split_list_last)
  from s r pre post show ?thesis by blast
qed

lemma json_match_Some_shape:
  assumes "json_match s = Some m"
  shows "\<exists>pre mid post. s = pre @ m @ post \<and> m = CHR ''['' # mid @ [CHR '']'']
           \<and> CHR ''['' \<notin> set pre \<and> CHR '']'' \<notin> set post"
proof -
  have "CHR ''['' \<in> set s"
  proof (rule ccontr)
    assume "CHR ''['' \<notin> set s"
    then have "dropWhile (\<lambda>c. c \<noteq> CHR ''['') s = []"
      by (auto simp: dropWhile_eq_Nil_conv)
    then have "json_match s = None" by (simp only: json_match_def list.case)
    with assms show False by simp
  qed
  then obtain pre r where s: "s = pre @ CHR ''['' # r" and pre: "CHR ''['' \<notin> set pre"
    by (meson split_list_first)
  from pre have t: "dropWhile (\<lambda>c. c \<noteq> CHR ''['') s = CHR ''['' # r"
    unfolding s by (subst dropWhile_append2) auto
  have "CHR '']'' \<in> set r"
  proof (rule ccontr)
    assume "CHR '']'' \<notin> set r"
    then have "dropWhile (\<lambda>c. c \<noteq> CHR '']'') (rev r) = []"
      by (auto simp: dropWhile_eq_Nil_conv)
    then have "json_match s = None" by (simp only: json_match_def t list.case rev.simps)
    with assms show False by simp
  qed
  then obtain mid post where r: "r = mid @ CHR '']'' # post" and post: "CHR '']'' \<notin> set post"
    by (meson split_list_last)
  have s': "s = pre @ CHR ''['' # mid @ CHR '']'' # post"
    by (simp add: s r)
  have "json_match s = Some (CHR ''['' # mid @ [CHR '']''])"
    by (subst s') (rule json_match_span[OF pre post])
  with assms have m: "m = CHR ''['' # mid @ [CHR '']'']" by simp
  have "s = pre @ m @ post" by (simp add: s' m)
  with m pre post show ?thesis by blast
qed

lemma json_match_None_iff:
  "json_match s = None \<longleftrightarrow> (\<nexists>a b c. s = a @ CHR ''['' # b @ CHR '']'' # c)"
proof
  assume n: "json_match s = None"
  show "\<nexists>a b c. s = a @ CHR ''['' # b @ CHR '']'' # c"
  proof
    assume "\<exists>a b c. s = a @ CHR ''['' # b @ CHR '']'' # c"
    then obtain a b c where "s = a @ CHR ''['' # b @ CHR '']'' # c" by blast
    from first_last_bracket[OF this] obtain pre mid post
      where "s = pre @ CHR ''['' # mid @ CHR '']'' # post"
        and "CHR ''['' \<notin> set pre" and "CHR '']'' \<notin> set post" by blast
    with json_match_span[of pre post mid] n show False by simp
  qed
next
  assume a: "\<nexists>a b c. s = a @ CHR ''['' # b @ CHR '']'' # c"
  show "json_match s = None"
  proof (rule ccontr)
    assume "json_match s \<noteq> None"
    then obtain m where "json_match s = Some m" by auto
    from json_match_Some_shape[OF this] obtain pre mid post
      where "s = pre @ (CHR ''['' # mid @ [CHR '']'']) @ post" by blast
    then have "s = pre @ CHR ''['' # mid @ CHR '']'' # post" by simp
    with a show False by blast
  qed
qed

text \<open>
  Claim C7 says that the parser takes the first balanced \<^verbatim>\<open>[...]\<close> span and that
  later brackets do not change which span is parsed. On the text
  \<^verbatim>\<open>[1] and [2]\<close> the first balanced span is \<^verbatim>\<open>[1]\<close>, and the endpoint hands
  the whole text to the decoder; on \<^verbatim>\<open>[1]\<close> alone it hands over \<^verbatim>\<open>[1]\<close>, so
  the text after the first span changed what is parsed.
\<close>

theorem C7_counterexample:
  "json_match ''[1] and [2]'' = Some ''[1] and [2]''
   \<and> first_balanced_span ''[1] and [2]'' = Some ''[1]''
   \<and> json_source ''[1] and [2]'' = ''[1] and [2]''
   \<and> json_source ''[1]'' = ''[1]''"
  by (simp add: json_match_def json_source_def)

text \<open>
  Claim C7, amended. The text handed to the JSON decoder is the span from the first
  \<^verbatim>\<open>[\<close> of the response to its last \<^verbatim>\<open>]\<close>, whatever lies between them (later
  brackets included); what stands before the first \<^verbatim>\<open>[\<close> and after the last
  \<^verbatim>\<open>]\<close> does not matter. When the response has no \<^verbatim>\<open>]\<close> after a
  \<^verbatim>\<open>[\<close>, the whole response is handed over. Every response is of one of the two
  kinds.
\<close>

theorem C7_extracted_span:
  "(CHR ''['' \<notin> set pre \<and> CHR '']'' \<notin> set post \<longrightarrow>
      json_source (pre @ CHR ''['' # mid @ CHR '']'' # post) = CHR ''['' # mid @ [CHR '']''])
   \<and> ((\<nexists>a b c. s = a @ CHR ''['' # b @ CHR '']'' # c) \<longrightarrow> json_source s = s)
   \<and> ((\<exists>a b c. s = a @ CHR ''['' # b @ CHR '']'' # c) \<longrightarrow>
        (\<exists>pre mid post. s = pre @ CHR ''['' # mid @ CHR '']'' # post
           \<and> CHR ''['' \<notin> set pre \<and> CHR '']'' \<notin> set post))
   \<and> learning_path_data E s = json_loads E (json_source s)"
proof (intro conjI impI)
  assume "CHR ''['' \<notin> set pre \<and> CHR '']'' \<notin> set post"
  then show "json_source (pre @ CHR ''['' # mid @ CHR '']'' # post) = CHR ''['' # mid @ [CHR '']'']"
    by (simp add: json_source_def json_match_span)
next
  assume "\<nexists>a b c. s = a @ CHR ''['' # b @ CHR '']'' # c"
  then have "json_match s = None" using json_match_None_iff[of s] by blast
  then show "json_source s = s" by (simp add: json_source_def)
next
  assume "\<exists>a b c. s = a @ CHR ''['' # b @ CHR '']'' # c"
  then show "\<exists>pre mid post. s = pre @ CHR ''['' # mid @ CHR '']'' # post
      \<and> CHR ''['' \<notin> set pre \<and> CHR '']'' \<notin> set post"
    using first_last_bracket by blast
next
  show "learning_path_data E s = json_loads E (json_source s)"
    by (simp add: learning_path_data_def)
qed

theorem C7_extracted_span_witness:
  "CHR ''['' \<notin> set ''Plan: '' \<and> CHR '']'' \<notin> set '' done''
   \<and> json_source (''Plan: '' @ CHR ''['' # ''1] and [2'' @ CHR '']'' # '' done'') = ''[1] and [2]''
   \<and> (\<nexists>a b c. ''] no ['' = a @ CHR ''['' # b @ CHR '']'' # c)
   \<and> json_source ''] no ['' = ''] no [''"
proof -
  have "json_match ''] no ['' = None" by (simp add: json_match_def)
  then have n: "\<nexists>a b c. ''] no ['' = a @ CHR ''['' # b @ CHR '']'' # c"
    using json_match_None_iff[of "''] no [''"] by blast
  have p: "CHR ''['' \<notin> set ''Plan: '' \<and> CHR '']'' \<notin> set '' done''" by simp
  note t = C7_extracted_span[of "''Plan: ''" "'' done''" "''1] and [2''" "''] no [''"]
  from t p have a: "json_source (''Plan: '' @ CHR ''['' # ''1] and [2'' @ CHR '']'' # '' done'')
      = CHR ''['' # ''1] and [2'' @ [CHR '']'']" by blast
  from t n have b: "json_source ''] no ['' = ''] no [''" by blast
  from a have a': "json_source (''Plan: '' @ CHR ''['' # ''1] and [2'' @ CHR '']'' # '' done'')
      = ''[1] and [2]''" by simp
  from p a' n b show ?thesis by blast
qed

subsection \<open>Lower-casing\<close>

lemma lower_char_cases:
  "lower_char c = c \<or> (c \<in> set upper_chars \<and> lower_char c \<in> set lower_chars)"
proof (cases "map_of (zip upper_chars lower_chars) c")
  case None
  then show ?thesis by (simp add: lower_char_def)
next
  case (Some l)
  then have "(c, l) \<in> set (zip upper_chars lower_chars)" by (rule map_of_SomeD)
  then have "c \<in> set upper_chars" "l \<in> set lower_chars"
    by (auto dest: set_zip_leftD set_zip_rightD)
  with Some show ?thesis by (simp add: lower_char_def)
qed

lemma lower_not_upper: "c \<in> set lower_chars \<Longrightarrow> c \<notin> set upper_chars"
  by (auto simp: upper_chars_def lower_chars_def)

lemma lower_char_fixed: "c \<notin> set upper_chars \<Longrightarrow> lower_char c = c"
proof -
  assume a: "c \<notin> set upper_chars"
  have "map_of (zip upper_chars lower_chars) c = None"
  proof (rule ccontr)
    assume "map_of (zip upper_chars lower_chars) c \<noteq> None"
    then obtain l where "map_of (zip upper_chars lower_chars) c = Some l" by auto
    then have "(c, l) \<in> set (zip upper_chars lower_chars)" by (rule map_of_SomeD)
    then have "c \<in> set upper_chars" by (rule set_zip_leftD)
    with a show False by simp
  qed
  then show ?thesis by (simp add: lower_char_def)
qed

lemma lower_char_idem: "lower_char (lower_char c) = lower_char c"
  using lower_char_cases[of c] lower_not_upper lower_char_fixed by metis

lemma str_lower_idem: "str_lower (str_lower s) = str_lower s"
  by (simp add: str_lower_def lower_char_idem)

lemma current_skills_set_lower: "k \<in> current_skills_set known \<Longrightarrow> str_lower k = k"
  by (auto simp: current_skills_set_def str_lower_idem)

subsection \<open>The gap and recommended lists\<close>

lemma set_skill_gaps_of:
  "set (set_order E required) = required \<Longrightarrow>
   set (skill_gaps_of E required current) = {skill \<in> required. str_lower skill \<notin> current}"
  by (auto simp: skill_gaps_of_def)

text \<open>
  Claim C8 says that the gap and recommended lists come back sorted by normalized form,
  the same sequence on every invocation. The endpoint never sorts: each list is in the
  iteration order of a Python set. With the set iterated as Terraform, Go the gap list
  is Terraform, Go, which is not sorted; with the set iterated as Go, Terraform the same
  inputs give Go, Terraform.
\<close>

theorem C8_counterexample:
  "skill_gaps_of (sample_env [''Terraform'', ''Go''] unavailable) {''Go'', ''Terraform''}
      (current_skills_set [''Python'']) = [''Terraform'', ''Go'']
   \<and> \<not> sorted (map str_lower [''Terraform'', ''Go''])
   \<and> skill_gaps_of (sample_env [''Go'', ''Terraform''] unavailable) {''Go'', ''Terraform''}
      (current_skills_set [''Python'']) = [''Go'', ''Terraform'']
   \<and> recommended_skills_of (sample_env [''Terraform'', ''Go''] unavailable) {''Go'', ''Terraform''}
      (current_skills_set [''Python'']) = [''Terraform'', ''Go'']"
  by code_simp

text \<open>
  Claim C8, amended: the order is the iteration order of the sets, not a sorted one.
  The gap list keeps the order in which the set of required skills is iterated, the
  recommended list is the sequence in which a set is iterated, and two invocations on
  the same inputs return the same gap list and the same recommended list whenever they
  iterate sets in the same order.
\<close>

theorem C8_order_of_lists:
  "subseq (skill_gaps_of E required current) (set_order E required)
   \<and> (\<exists>S. recommended_skills_of E preferred current = set_order E S)
   \<and> (set_order E' = set_order E \<longrightarrow>
        skill_gaps_of E' required current = skill_gaps_of E required current
        \<and> recommended_skills_of E' preferred current
            = recommended_skills_of E preferred current)"
proof (intro conjI impI)
  show "subseq (skill_gaps_of E required current) (set_order E required)"
    by (simp add: skill_gaps_of_def)
  show "\<exists>S. recommended_skills_of E preferred current = set_order E S"
    unfolding recommended_skills_of_def by (rule exI) (rule refl)
next
  assume o: "set_order E' = set_order E"
  show "skill_gaps_of E' required current = skill_gaps_of E required current"
    by (simp add: skill_gaps_of_def o)
  show "recommended_skills_of E' preferred current = recommended_skills_of E preferred current"
    by (simp add: recommended_skills_of_def o)
qed

theorem C8_order_of_lists_witness:
  "set_order (sample_env [''Terraform'', ''Go'', ''Docker''] (answering plain_text))
      = set_order (sample_env [''Terraform'', ''Go'', ''Docker''] unavailable)
   \<and> skill_gaps_of (sample_env [''Terraform'', ''Go'', ''Docker''] unavailable)
        {''Go'', ''Terraform''} (current_skills_set [''Docker'']) = [''Terraform'', ''Go'']
   \<and> skill_gaps_of (sample_env [''Terraform'', ''Go'', ''Docker''] (answering plain_text))
        {''Go'', ''Terraform''} (current_skills_set [''Docker'']) = [''Terraform'', ''Go'']
   \<and> subseq [''Terraform'', ''Go'']
        (set_order (sample_env [''Terraform'', ''Go'', ''Docker''] unavailable)
           {''Go'', ''Terraform''})
   \<and> recommended_skills_of (sample_env [''Terraform'', ''Go'', ''Docker''] unavailable)
        {''Docker'', ''Go''} (current_skills_set [''Docker'']) = [''Go'', ''Docker'']
   \<and> recommended_skills_of (sample_env [''Terraform'', ''Go'', ''Docker''] (answering plain_text))
        {''Docker'', ''Go''} (current_skills_set [''Docker'']) = [''Go'', ''Docker'']
   \<and> (\<exists>S. [''Go'', ''Docker'']
          = set_order (sample_env [''Terraform'', ''Go'', ''Docker''] unavailable) S)"
proof -
  let ?E = "sample_env [''Terraform'', ''Go'', ''Docker''] unavailable"
  let ?E' = "sample_env [''Terraform'', ''Go'', ''Docker''] (answering plain_text)"
  let ?K = "current_skills_set [''Docker'']"
  have o: "set_order ?E' = set_order ?E"
    by (simp add: sample_env_def)
  have g: "skill_gaps_of ?E {''Go'', ''Terraform''} ?K = [''Terraform'', ''Go'']"
    by code_simp
  have k: "{''Docker'', ''Go''} - ?K = {''Docker'', ''Go''}"
    by code_simp
  have "set_order ?E {''Docker'', ''Go''} = [''Go'', ''Docker'']"
    by code_simp
  then have "set_order ?E ({''Docker'', ''Go''} - ?K) = [''Go'', ''Docker'']"
    by (simp only: k)
  then have r: "recommended_skills_of ?E {''Docker'', ''Go''} ?K = [''Go'', ''Docker'']"
    by (simp add: recommended_skills_of_def)
  note t = C8_order_of_lists[of ?E "{''Go'', ''Terraform''}" ?K "{''Docker'', ''Go''}" ?E']
  from t have "subseq (skill_gaps_of ?E {''Go'', ''Terraform''} ?K)
      (set_order ?E {''Go'', ''Terraform''})"
    by blast
  then have 1: "subseq [''Terraform'', ''Go''] (set_order ?E {''Go'', ''Terraform''})"
    by (simp only: g)
  from t o have "skill_gaps_of ?E' {''Go'', ''Terraform''} ?K
      = skill_gaps_of ?E {''Go'', ''Terraform''} ?K"
    by blast
  then have 2: "skill_gaps_of ?E' {''Go'', ''Terraform''} ?K = [''Terraform'', ''Go'']"
    by (simp only: g)
  from t o have "recommended_skills_of ?E' {''Docker'', ''Go''} ?K
      = recommended_skills_of ?E {''Docker'', ''Go''} ?K"
    by blast
  then have 3: "recommended_skills_of ?E' {''Docker'', ''Go''} ?K = [''Go'', ''Docker'']"
    by (simp only: r)
  from t have "\<exists>S. recommended_skills_of ?E {''Docker'', ''Go''} ?K = set_order ?E S"
    by blast
  then have 4: "\<exists>S. [''Go'', ''Docker''] = set_order ?E S"
    by (simp only: r)
  from o g 1 2 r 3 4 show ?thesis by blast
qed

text \<open>
  Claim C9 says that the gap is disjoint from the normalized known set and that the gap
  joined with the common skills is the normalized required set. The endpoint returns
  the gap skills as the postings spell them and only lower-cases for the comparison:
  with Docker required and Python known, the gap joined with the common skills is
  \<open>{Docker}\<close>, not \<open>{docker}\<close>. Under the specification's normalization (which
  also trims) the gap is not disjoint from the known skills either: with " docker"
  required and "docker" known the gap is \<open>[" docker"]\<close>.
\<close>

theorem C9_counterexample:
  "set (skill_gaps_of (sample_env sample_order unavailable) {''Docker''}
          (current_skills_set [''Python'']))
     \<union> (str_lower ` {''Docker''} \<inter> current_skills_set [''Python''])
     \<noteq> str_lower ` {''Docker''}
   \<and> spec_normalize (skill_gaps_of (sample_env ['' docker''] unavailable) {'' docker''}
          (current_skills_set [''docker'']))
       \<inter> spec_normalize [''docker''] \<noteq> {}"
  by code_simp

text \<open>
  Claim C9, amended: with lower-casing as the normalization, and the gap compared
  through the lower-case forms of its members. For all known and required skills, the
  gap is disjoint from the lower-cased known set (as it is spelled, and lower-cased),
  and the lower-cased gap joined with the lower-cased required skills that are known is
  the lower-cased required set.
\<close>

theorem C9_gap_algebra:
  assumes "set (set_order E required) = required"
  shows "set (skill_gaps_of E required (current_skills_set known)) \<inter> current_skills_set known = {}
       \<and> str_lower ` set (skill_gaps_of E required (current_skills_set known))
           \<inter> current_skills_set known = {}
       \<and> str_lower ` set (skill_gaps_of E required (current_skills_set known))
           \<union> (str_lower ` required \<inter> current_skills_set known)
         = str_lower ` required"
proof -
  let ?K = "current_skills_set known"
  let ?G = "set (skill_gaps_of E required ?K)"
  have G: "?G = {skill \<in> required. str_lower skill \<notin> ?K}"
    by (rule set_skill_gaps_of[OF assms])
  have a: "?G \<inter> ?K = {}"
    using current_skills_set_lower[of _ known] by (auto simp: G)
  have b: "str_lower ` ?G \<inter> ?K = {}"
    by (auto simp: G)
  have c: "str_lower ` ?G \<union> (str_lower ` required \<inter> ?K) = str_lower ` required"
    by (auto simp: G)
  from a b c show ?thesis by blast
qed

theorem C9_gap_algebra_witness:
  "set (set_order (sample_env sample_order unavailable) {''Docker'', ''Python''})
      = {''Docker'', ''Python''}
   \<and> skill_gaps_of (sample_env sample_order unavailable) {''Docker'', ''Python''}
        (current_skills_set [''PYTHON'']) = [''Docker'']
   \<and> set [''Docker''] \<inter> current_skills_set [''PYTHON''] = {}
   \<and> str_lower ` set [''Docker''] \<union> (str_lower ` {''Docker'', ''Python''} \<inter> current_skills_set [''PYTHON''])
      = str_lower ` {''Docker'', ''Python''}"
proof -
  let ?E = "sample_env sample_order unavailable"
  let ?K = "current_skills_set [''PYTHON'']"
  have h: "set (set_order ?E {''Docker'', ''Python''}) = {''Docker'', ''Python''}"
    by code_simp
  have g: "skill_gaps_of ?E {''Docker'', ''Python''} ?K = [''Docker'']"
    by code_simp
  from C9_gap_algebra[OF h, of "[''PYTHON'']"]
  have "set [''Docker''] \<inter> ?K = {}"
    and "str_lower ` set [''Docker''] \<union> (str_lower ` {''Docker'', ''Python''} \<inter> ?K)
      = str_lower ` {''Docker'', ''Python''}"
    unfolding g by blast+
  with h g show ?thesis by blast
qed

subsection \<open>Confidence\<close>

lemma confidence_of_range:
  "finite required \<Longrightarrow> 0 \<le> confidence_of current required \<and> confidence_of current required \<le> 1"
  by (auto simp: confidence_of_def divide_le_eq_1 card_mono)

lemma confidence_of_empty: "confidence_of current {} = 0"
  by (simp add: confidence_of_def)

lemma confidence_of_subset:
  "finite required \<Longrightarrow> required \<noteq> {} \<Longrightarrow> required \<subseteq> current \<Longrightarrow>
   confidence_of current required = 1"
  by (simp add: confidence_of_def Int_absorb1)

lemma confidence_of_capitalised:
  assumes "\<forall>skill \<in> required. str_lower skill \<noteq> skill"
  shows "confidence_of (current_skills_set known) required = 0"
proof -
  have "current_skills_set known \<inter> required = {}"
    using assms current_skills_set_lower[of _ known] by auto
  then show ?thesis by (simp add: confidence_of_def)
qed

text \<open>
  What does hold of the score: it lies between 0 and 1 in every roadmap the endpoint
  returns, it is 0 for an empty required set, and it is 1 when the required set, as the
  postings spell it, is contained in the lower-cased known set.
\<close>

lemma foldl_required_skills:
  "foldl (\<lambda>acc job. case job_required_skills job of
                       None \<Rightarrow> acc
                     | Some skills \<Rightarrow> if skills = [] then acc else acc \<union> set skills)
     acc jobs
   = acc \<union> (\<Union>job\<in>set jobs. case job_required_skills job of
                                  None \<Rightarrow> {} | Some skills \<Rightarrow> set skills)"
  by (induction jobs arbitrary: acc) (auto split: option.splits)

lemma all_required_skills_Union:
  "all_required_skills jobs
   = (\<Union>job\<in>set jobs. case job_required_skills job of
                           None \<Rightarrow> {} | Some skills \<Rightarrow> set skills)"
  by (simp add: all_required_skills_def foldl_required_skills)

lemma finite_all_required_skills: "finite (all_required_skills jobs)"
  by (auto simp: all_required_skills_Union split: option.splits)

lemma confidence_score_range:
  assumes "generate_roadmap E request db = Inr r"
  shows "0 \<le> confidence_score r \<and> confidence_score r \<le> 1"
proof (cases "retrieval E request db")
  case (Inl x)
  with assms show ?thesis
    by (auto simp: generate_roadmap_def retrieval_Inl_body split: raised.splits)
next
  case (Inr jobs)
  with assms have "confidence_score r
      = confidence_of (current_skills_set (current_skills request)) (all_required_skills jobs)"
    by (auto simp: generate_roadmap_def retrieval_Inr_body
        split: sum.splits raised.splits option.splits)
  with confidence_of_range[OF finite_all_required_skills] show ?thesis by simp
qed

text \<open>
  Claim C3 at a failing input: the posting requires Python and Docker and the request
  lists Python and Docker as known. The gap is empty (the gap compares lower-case
  forms), and the confidence score is 0, not 1: the score intersects the lower-cased
  known skills with the required skills as the posting spells them.
\<close>

theorem C3_confidence_ignores_case:
  "generate_roadmap (sample_env sample_order (answering plain_text))
      (sample_request ''Backend'' [''Python'', ''Docker'']) [backend_job, devops_job]
   = Inr \<lparr> response_target_role = ''Backend'',
           response_current_skills = [''Python'', ''Docker''],
           skill_gaps = [],
           recommended_skills = [],
           learning_path = [fallback_step []],
           estimated_timeline = ''0 weeks'',
           confidence_score = 0 \<rparr>"
  by code_simp

subsection \<open>Steps parsed from the generator's array\<close>

lemma make_steps_Inr:
  "make_steps E items = Inr path \<Longrightarrow>
   length path = length items \<and>
   (\<forall>i<length items. make_LearningStep E (items ! i) = Inr (path ! i))"
proof (induction items arbitrary: path)
  case Nil
  then show ?case by simp
next
  case (Cons v vs)
  from Cons.prems obtain s ss where s: "make_LearningStep E v = Inr s"
    and ss: "make_steps E vs = Inr ss" and p: "path = s # ss"
    by (auto split: sum.splits)
  from Cons.IH[OF ss] have l: "length ss = length vs"
    and n: "\<forall>i<length vs. make_LearningStep E (vs ! i) = Inr (ss ! i)" by simp_all
  show ?case
  proof (intro conjI allI impI)
    show "length path = length (v # vs)" using l p by simp
  next
    fix i assume "i < length (v # vs)"
    then show "make_LearningStep E ((v # vs) ! i) = Inr (path ! i)"
      using s n p by (cases i) simp_all
  qed
qed

lemma make_LearningStep_step:
  assumes "make_LearningStep E (JObj members) = Inr s"
    and "object_member members ''step'' = Some (JInt n)"
  shows "step s = n"
proof -
  from assms(1) have "validate_step E members = Some s"
    by (simp add: make_LearningStep_def split: option.splits)
  with assms(2) show ?thesis
    by (auto simp: validate_step_def int_field_def bind_eq_Some_conv)
qed

lemma parsed_run:
  assumes "retrieval E request db = Inr jobs"
    and "prompt_of_jobs E request jobs = Inr prompt"
    and "generate_content E prompt = Inr reply"
    and "generate_roadmap E request db = Inr r"
  shows "parse_learning_path E (gaps_of_jobs E request jobs) reply = Inr (learning_path r)
       \<and> (\<exists>weeks. total_duration (learning_path r) = Inr weeks
             \<and> timeline_text weeks = Inr (estimated_timeline r))"
  using assms
  by (auto simp: generate_roadmap_def retrieval_Inr_body
      split: sum.splits raised.splits option.splits)

lemma failed_timeline_run:
  assumes "retrieval E request db = Inr jobs"
    and "prompt_of_jobs E request jobs = Inr prompt"
    and "generate_content E prompt = Inr reply"
    and "parse_learning_path E (gaps_of_jobs E request jobs) reply = Inr steps"
    and "total_duration steps = Inl e"
  shows "generate_roadmap E request db = Inl (HTTPException 500)"
  using assms by (simp add: generate_roadmap_def retrieval_Inr_body)

lemma sample_steps_reply:
  "generate_content (sample_env sample_order (answering steps_text)) sample_prompt
     = Inr steps_text"
  by code_simp

lemma sample_steps_decoded:
  "learning_path_data (sample_env sample_order reply) steps_text
     = Inr (JArr [JObj [(''step'', JInt 5), (''title'', JStr ''Deploy''),
                         (''description'', JStr ''Ship''),
                         (''estimated_duration'', JStr ''2 weeks'')],
                   JObj [(''step'', JInt 3), (''title'', JStr ''Learn''),
                         (''description'', JStr ''Study''),
                         (''estimated_duration'', JStr ''3 weeks'')]])"
  by code_simp

lemma sample_steps_run:
  "generate_roadmap (sample_env sample_order (answering steps_text))
      (sample_request ''DevOps'' [''Python'']) [backend_job, devops_job]
   = Inr \<lparr> response_target_role = ''DevOps'',
           response_current_skills = [''Python''],
           skill_gaps = [''Kubernetes'', ''Terraform'', ''Go''],
           recommended_skills = [''Python'', ''Docker''],
           learning_path =
             [\<lparr> step = 5, title = ''Deploy'', description = ''Ship'',
                estimated_duration = ''2 weeks'', resources = [], skills_gained = [] \<rparr>,
              \<lparr> step = 3, title = ''Learn'', description = ''Study'',
                estimated_duration = ''3 weeks'', resources = [], skills_gained = [] \<rparr>],
           estimated_timeline = ''5 weeks'',
           confidence_score = 0 \<rparr>"
  by code_simp

text \<open>
  Claim C2 says that the steps of the final roadmap are numbered 1..N by array position
  whatever the generator wrote in the \<^verbatim>\<open>step\<close> fields. The endpoint does not
  renumber: for a response whose two step objects carry 5 and 3, the learning path
  carries 5 and 3.
\<close>

theorem C2_counterexample:
  "generate_roadmap (sample_env sample_order (answering steps_text))
      (sample_request ''DevOps'' [''Python'']) [backend_job, devops_job]
   = Inr \<lparr> response_target_role = ''DevOps'',
           response_current_skills = [''Python''],
           skill_gaps = [''Kubernetes'', ''Terraform'', ''Go''],
           recommended_skills = [''Python'', ''Docker''],
           learning_path =
             [\<lparr> step = 5, title = ''Deploy'', description = ''Ship'',
                estimated_duration = ''2 weeks'', resources = [], skills_gained = [] \<rparr>,
              \<lparr> step = 3, title = ''Learn'', description = ''Study'',
                estimated_duration = ''3 weeks'', resources = [], skills_gained = [] \<rparr>],
           estimated_timeline = ''5 weeks'',
           confidence_score = 0 \<rparr>"
  by (rule sample_steps_run)

text \<open>
  Claim C2, amended. When the generator's response decodes to an array and the endpoint
  returns a roadmap, the learning path has one step per array element, in array order,
  and the ordinal of each step is the integer its object supplied in the
  \<^verbatim>\<open>step\<close> field; nothing is renumbered.
\<close>

theorem C2_steps_as_supplied:
  assumes "retrieval E request db = Inr jobs"
    and "prompt_of_jobs E request jobs = Inr prompt"
    and "generate_content E prompt = Inr reply"
    and "learning_path_data E reply = Inr (JArr items)"
    and "generate_roadmap E request db = Inr r"
  shows "length (learning_path r) = length items
       \<and> (\<forall>i<length items. \<forall>members n.
             items ! i = JObj members \<longrightarrow> object_member members ''step'' = Some (JInt n) \<longrightarrow>
             step (learning_path r ! i) = n)"
proof -
  from parsed_run[OF assms(1,2,3,5)]
  have "parse_learning_path E (gaps_of_jobs E request jobs) reply = Inr (learning_path r)"
    by simp
  with assms(4) have m: "make_steps E items = Inr (learning_path r)"
    by (simp add: parse_learning_path_def)
  from make_steps_Inr[OF m] have l: "length (learning_path r) = length items"
    and n: "\<forall>i<length items. make_LearningStep E (items ! i) = Inr (learning_path r ! i)"
    by simp_all
  show ?thesis
  proof (intro conjI allI impI)
    show "length (learning_path r) = length items" by (rule l)
  next
    fix i members n
    assume i: "i < length items" and o: "items ! i = JObj members"
      and s: "object_member members ''step'' = Some (JInt n)"
    from n i have "make_LearningStep E (items ! i) = Inr (learning_path r ! i)" by blast
    then have v: "make_LearningStep E (JObj members) = Inr (learning_path r ! i)"
      by (simp only: o)
    from make_LearningStep_step[OF v s] show "step (learning_path r ! i) = n" .
  qed
qed

theorem C2_steps_as_supplied_witness:
  "retrieval (sample_env sample_order (answering steps_text))
       (sample_request ''DevOps'' [''Python'']) [backend_job, devops_job] = Inr [devops_job]
   \<and> generate_content (sample_env sample_order (answering steps_text)) sample_prompt
       = Inr steps_text
   \<and> (\<exists>r. generate_roadmap (sample_env sample_order (answering steps_text))
              (sample_request ''DevOps'' [''Python'']) [backend_job, devops_job] = Inr r
         \<and> length (learning_path r) = 2
         \<and> step (learning_path r ! 0) = 5
         \<and> step (learning_path r ! 1) = 3)"
proof -
  let ?E = "sample_env sample_order (answering steps_text)"
  let ?o1 = "[(''step'', JInt 5), (''title'', JStr ''Deploy''), (''description'', JStr ''Ship''),
              (''estimated_duration'', JStr ''2 weeks'')]"
  let ?o2 = "[(''step'', JInt 3), (''title'', JStr ''Learn''), (''description'', JStr ''Study''),
              (''estimated_duration'', JStr ''3 weeks'')]"
  obtain r where r: "generate_roadmap ?E (sample_request ''DevOps'' [''Python''])
      [backend_job, devops_job] = Inr r"
    using sample_steps_run by blast
  note t = C2_steps_as_supplied[OF sample_retrieval sample_prompt_of_jobs sample_steps_reply
      sample_steps_decoded r]
  have s1: "object_member ?o1 ''step'' = Some (JInt 5)" by code_simp
  have s2: "object_member ?o2 ''step'' = Some (JInt 3)" by code_simp
  from t have l: "length (learning_path r) = 2" by simp
  from t have "\<forall>i<2. \<forall>members n. [JObj ?o1, JObj ?o2] ! i = JObj members \<longrightarrow>
      object_member members ''step'' = Some (JInt n) \<longrightarrow> step (learning_path r ! i) = n"
    by simp
  then have a: "step (learning_path r ! 0) = 5" and b: "step (learning_path r ! 1) = 3"
    using s1 s2 by force+
  from r l a b sample_retrieval sample_steps_reply show ?thesis by blast
qed

subsection \<open>The timeline\<close>

lemma split_from_Nil_iff:
  "split_from tok s = [] \<longleftrightarrow> tok = [] \<and> (\<forall>c\<in>set s. isspace c)"
  by (induction s arbitrary: tok) auto

lemma str_split_Nil_iff: "str_split s = [] \<longleftrightarrow> (\<forall>c\<in>set s. isspace c)"
  by (simp add: str_split_def split_from_Nil_iff)

text \<open>
  The sum succeeds exactly on the lists whose durations are all readable, and is then
  the sum of the steps' contributions as the specification words them.
\<close>

lemma duration_numbers_Inr_iff:
  "(\<exists>ns. duration_numbers steps = Inr ns)
   \<longleftrightarrow> (\<forall>s\<in>set steps. readable_duration (estimated_duration s))"
proof (induction steps)
  case Nil
  show ?case by simp
next
  case (Cons s ss)
  show ?case
  proof (cases "str_split (estimated_duration s)")
    case Nil
    then show ?thesis by (simp add: readable_duration_def)
  next
    case (Cons token rest)
    show ?thesis
    proof (cases "str_isdigit token")
      case False
      with Cons Cons.IH show ?thesis by (simp add: readable_duration_def)
    next
      case True
      then have ne: "token \<noteq> []" by (simp add: str_isdigit_def)
      show ?thesis
      proof (cases "list_all (\<lambda>c. c \<in> set digit_chars) token
                    \<and> length token \<le> max_str_digits")
        case True
        with ne obtain n where "py_int token = Inr n" by (simp add: py_int_def)
        with Cons \<open>str_isdigit token\<close> True Cons.IH show ?thesis
          by (auto simp: readable_duration_def split: sum.splits)
      next
        case False
        then have "py_int token = Inl ValueError" by (auto simp: py_int_def)
        with Cons \<open>str_isdigit token\<close> False show ?thesis
          by (auto simp: readable_duration_def)
      qed
    qed
  qed
qed

lemma total_duration_Inr_iff:
  "(\<exists>weeks. total_duration steps = Inr weeks)
   \<longleftrightarrow> (\<forall>s\<in>set steps. readable_duration (estimated_duration s))"
  using duration_numbers_Inr_iff[of steps]
  by (auto simp: total_duration_def split: sum.splits)

lemma duration_numbers_sum:
  "duration_numbers steps = Inr ns \<Longrightarrow>
   sum_list ns = (\<Sum>s\<leftarrow>steps. leading_weeks (estimated_duration s))"
proof (induction steps arbitrary: ns)
  case Nil
  then show ?case by simp
next
  case (Cons s ss)
  then show ?case
    by (auto simp: leading_weeks_def split: list.splits if_splits sum.splits)
qed

lemma total_duration_sum:
  assumes "\<forall>s\<in>set steps. readable_duration (estimated_duration s)"
  shows "total_duration steps = Inr (\<Sum>s\<leftarrow>steps. leading_weeks (estimated_duration s))"
proof -
  from assms obtain ns where ns: "duration_numbers steps = Inr ns"
    using duration_numbers_Inr_iff[of steps] by blast
  with duration_numbers_sum[OF ns] show ?thesis by (simp add: total_duration_def)
qed

lemma blank_duration_first:
  assumes "\<forall>c\<in>set (estimated_duration s). isspace c"
  shows "total_duration (s # ss) = Inl IndexError"
proof -
  from assms have "str_split (estimated_duration s) = []"
    by (simp add: str_split_Nil_iff)
  then show ?thesis by (simp add: total_duration_def)
qed

lemma blank_duration_fails:
  assumes "s \<in> set steps" and "\<forall>c\<in>set (estimated_duration s). isspace c"
  shows "\<exists>e. total_duration steps = Inl e"
proof -
  from assms(2) have "str_split (estimated_duration s) = []"
    by (simp add: str_split_Nil_iff)
  then have "\<not> readable_duration (estimated_duration s)"
    by (simp add: readable_duration_def)
  with assms(1) have "\<not> (\<exists>weeks. total_duration steps = Inr weeks)"
    by (auto simp: total_duration_Inr_iff)
  then show ?thesis by (cases "total_duration steps") auto
qed

text \<open>
  A numeral of more than 4300 digits is a digit token that \<^verbatim>\<open>int\<close> refuses, and a
  total of more than 4300 digits is one that the f-string refuses.
\<close>

lemma long_numeral_fails:
  "max_str_digits < length token \<Longrightarrow> py_int token = Inl ValueError"
  by (simp add: py_int_def)

lemma long_total_fails:
  assumes "52 \<le> weeks" and "max_str_digits < length (str_nat (nat (weeks div 4)))"
  shows "timeline_text weeks = Inl ValueError"
proof -
  from assms(1) have "\<bar>weeks div 4\<bar> = weeks div 4" by simp
  with assms show ?thesis by (simp add: timeline_text_def py_str_def)
qed

text \<open>The specification's examples, and the two sides of the threshold 52.\<close>

lemma timeline_of_weeks:
  "total_duration [weeks_step ''2 weeks'', weeks_step ''3 weeks'', weeks_step ''10 weeks'']
     = Inr 15
   \<and> timeline_text 15 = Inr ''15 weeks''
   \<and> total_duration [weeks_step ''30 weeks'', weeks_step ''30 weeks''] = Inr 60
   \<and> timeline_text 60 = Inr ''15 months''
   \<and> total_duration [weeks_step ''2-3 weeks'', weeks_step ''1 month''] = Inr 1
   \<and> timeline_text 51 = Inr ''51 weeks''
   \<and> timeline_text 52 = Inr ''13 months''"
  by code_simp

text \<open>
  Claim C6 at a failing input. The claim gives every step whose duration does not start
  with an integer token the contribution 0. A step whose duration is the empty string
  has no first token: the specification's contribution is 0, and the endpoint's sum
  raises \<^verbatim>\<open>IndexError\<close>, so that a generator response with such a step ends in
  status 500.
\<close>

theorem C6_blank_duration:
  "total_duration [blank_duration_step] = Inl IndexError
   \<and> leading_weeks (estimated_duration blank_duration_step) = 0
   \<and> generate_roadmap (sample_env sample_order (answering blank_duration_text))
        (sample_request ''DevOps'' [''Python'']) [backend_job, devops_job]
      = Inl (HTTPException 500)"
  by code_simp

lemma sample_blank_reply:
  "generate_content (sample_env sample_order (answering blank_duration_text)) sample_prompt
     = Inr blank_duration_text"
  by code_simp

lemma sample_blank_parsed:
  "parse_learning_path (sample_env sample_order (answering blank_duration_text))
     (gaps_of_jobs (sample_env sample_order (answering blank_duration_text))
        (sample_request ''DevOps'' [''Python'']) [devops_job])
     blank_duration_text = Inr [blank_duration_step]"
  by code_simp

text \<open>
  Claim C10. The timeline is computed only when every step's duration holds at least one
  token, that is, a character that is not whitespace. For a step whose duration is
  empty or all whitespace, \<^verbatim>\<open>split()\<close> is the empty list and taking its first element
  raises: the sum fails (with \<^verbatim>\<open>IndexError\<close> when that step comes first), and a run
  whose parsed learning path holds such a step ends in status 500 instead of counting
  the step as 0.
\<close>

theorem C10_timeline_precondition:
  "((\<exists>weeks. total_duration steps = Inr weeks) \<longrightarrow>
      (\<forall>s\<in>set steps. \<exists>c\<in>set (estimated_duration s). \<not> isspace c))
   \<and> (s \<in> set steps \<and> (\<forall>c\<in>set (estimated_duration s). isspace c) \<longrightarrow>
        str_split (estimated_duration s) = []
        \<and> (\<exists>e. total_duration steps = Inl e)
        \<and> total_duration (s # rest) = Inl IndexError
        \<and> (retrieval E request db = Inr jobs \<longrightarrow>
            prompt_of_jobs E request jobs = Inr prompt \<longrightarrow>
            generate_content E prompt = Inr reply \<longrightarrow>
            parse_learning_path E (gaps_of_jobs E request jobs) reply = Inr steps \<longrightarrow>
            generate_roadmap E request db = Inl (HTTPException 500)))"
proof (intro conjI impI)
  assume "\<exists>weeks. total_duration steps = Inr weeks"
  then have r: "\<forall>s\<in>set steps. readable_duration (estimated_duration s)"
    by (simp only: total_duration_Inr_iff)
  show "\<forall>s\<in>set steps. \<exists>c\<in>set (estimated_duration s). \<not> isspace c"
  proof
    fix x assume "x \<in> set steps"
    with r have "readable_duration (estimated_duration x)" by blast
    then have "str_split (estimated_duration x) \<noteq> []"
      by (auto simp: readable_duration_def)
    then show "\<exists>c\<in>set (estimated_duration x). \<not> isspace c"
      by (simp add: str_split_Nil_iff)
  qed
next
  assume a: "s \<in> set steps \<and> (\<forall>c\<in>set (estimated_duration s). isspace c)"
  then show "str_split (estimated_duration s) = []" by (simp add: str_split_Nil_iff)
  from a show "\<exists>e. total_duration steps = Inl e" using blank_duration_fails by blast
  from a show "total_duration (s # rest) = Inl IndexError" using blank_duration_first by blast
  assume h: "retrieval E request db = Inr jobs" "prompt_of_jobs E request jobs = Inr prompt"
    "generate_content E prompt = Inr reply"
    "parse_learning_path E (gaps_of_jobs E request jobs) reply = Inr steps"
  from a obtain e where "total_duration steps = Inl e" using blank_duration_fails by blast
  from failed_timeline_run[OF h this]
  show "generate_roadmap E request db = Inl (HTTPException 500)" .
qed

theorem C10_timeline_precondition_witness:
  "blank_duration_step \<in> set [blank_duration_step]
   \<and> estimated_duration blank_duration_step = []
   \<and> str_split (estimated_duration blank_duration_step) = []
   \<and> total_duration [blank_duration_step] = Inl IndexError
   \<and> retrieval (sample_env sample_order (answering blank_duration_text))
        (sample_request ''DevOps'' [''Python'']) [backend_job, devops_job] = Inr [devops_job]
   \<and> generate_roadmap (sample_env sample_order (answering blank_duration_text))
        (sample_request ''DevOps'' [''Python'']) [backend_job, devops_job]
      = Inl (HTTPException 500)
   \<and> total_duration [weeks_step ''2 weeks''] = Inr 2
   \<and> (\<exists>c\<in>set (estimated_duration (weeks_step ''2 weeks'')). \<not> isspace c)"
proof -
  let ?E = "sample_env sample_order (answering blank_duration_text)"
  have m: "blank_duration_step \<in> set [blank_duration_step]" by simp
  have b: "\<forall>c\<in>set (estimated_duration blank_duration_step). isspace c"
    by (simp add: blank_duration_step_def)
  note t = C10_timeline_precondition[of "[blank_duration_step]" blank_duration_step "[]" ?E
      "sample_request ''DevOps'' [''Python'']" "[backend_job, devops_job]" "[devops_job]"
      sample_prompt blank_duration_text]
  from t m b have 1: "str_split (estimated_duration blank_duration_step) = []" by blast
  from t m b have 2: "total_duration [blank_duration_step] = Inl IndexError" by blast
  from t m b sample_retrieval sample_prompt_of_jobs sample_blank_reply sample_blank_parsed
  have 3: "generate_roadmap ?E (sample_request ''DevOps'' [''Python''])
      [backend_job, devops_job] = Inl (HTTPException 500)" by blast
  have w: "total_duration [weeks_step ''2 weeks''] = Inr 2" by code_simp
  note u = C10_timeline_precondition[of "[weeks_step ''2 weeks'']" blank_duration_step "[]" ?E
      "sample_request ''DevOps'' [''Python'']" "[backend_job, devops_job]" "[devops_job]"
      sample_prompt blank_duration_text]
  from u w have 4: "\<exists>c\<in>set (estimated_duration (weeks_step ''2 weeks'')). \<not> isspace c"
    by simp
  have d: "estimated_duration blank_duration_step = []"
    by (simp add: blank_duration_step_def)
  from m d 1 2 3 w 4 sample_retrieval show ?thesis by blast
qed

subsection \<open>The two tiers of the retrieval\<close>

text \<open>
  The second query runs exactly when the first returns no row, and the result is never
  a mix of the two: when the first answer is not empty it is the result, and its rows
  pass the title filter.
\<close>

lemma similar_jobs_no_merge:
  assumes "answers_from_table E"
    and "db_query E v (title_filter role) 10 db = Inr first_try"
    and "first_try \<noteq> []"
  shows "similar_jobs E v role db = Inr first_try
       \<and> set first_try \<subseteq> set (title_matches role db)
       \<and> length first_try \<le> 10"
proof -
  from assms(1,2) have "set first_try \<subseteq> {job \<in> set db. title_filter role job}
      \<and> length first_try \<le> 10"
    unfolding answers_from_table_def by blast
  with assms(2,3) show ?thesis by (simp add: similar_jobs_def title_matches_def)
qed

lemma similar_jobs_second_tier:
  assumes "answers_from_table E"
    and "db_query E v (title_filter role) 10 db = Inr []"
    and "similar_jobs E v role db = Inr jobs"
  shows "db_query E v (\<lambda>job. True) 5 db = Inr jobs
       \<and> set jobs \<subseteq> set db
       \<and> length jobs \<le> 5"
proof -
  from assms(2,3) have q: "db_query E v (\<lambda>job. True) 5 db = Inr jobs"
    by (simp add: similar_jobs_def)
  with assms(1) have "set jobs \<subseteq> {job \<in> set db. True} \<and> length jobs \<le> 5"
    unfolding answers_from_table_def by blast
  with q show ?thesis by simp
qed

text \<open>
  The endpoint answers 404 exactly when the embedding was computed and both queries
  answered with no row. An empty table is one such case; because the index is
  approximate it need not be the only one.
\<close>

lemma generate_roadmap_404_iff:
  "generate_roadmap E request db = Inl (HTTPException 404)
   \<longleftrightarrow> (\<exists>v. generate_embedding E (target_role request) = Inr v
            \<and> db_query E v (title_filter (target_role request)) 10 db = Inr []
            \<and> db_query E v (\<lambda>job. True) 5 db = Inr [])"
proof (cases "retrieval E request db")
  case (Inl x)
  then have b: "roadmap_body E request db = Inl x" by (rule retrieval_Inl_body)
  show ?thesis
  proof (cases "generate_embedding E (target_role request)")
    case (Inl e)
    then show ?thesis by (simp add: generate_roadmap_def roadmap_body_def)
  next
    case v: (Inr v)
    show ?thesis
    proof (cases "similar_jobs E v (target_role request) db")
      case (Inl e)
      with v \<open>retrieval E request db = Inl x\<close> have x: "x = Exc e"
        by (simp add: retrieval_def)
      from Inl have "\<not> (db_query E v (title_filter (target_role request)) 10 db = Inr []
          \<and> db_query E v (\<lambda>job. True) 5 db = Inr [])"
        by (auto simp: similar_jobs_def)
      with v b x show ?thesis by (simp add: generate_roadmap_def)
    next
      case (Inr jobs)
      with v \<open>retrieval E request db = Inl x\<close> have j: "jobs = []" and x: "x = Http 404"
        by (auto simp: retrieval_def split: if_splits)
      from Inr j have "db_query E v (title_filter (target_role request)) 10 db = Inr []
          \<and> db_query E v (\<lambda>job. True) 5 db = Inr []"
        by (auto simp: similar_jobs_def split: sum.splits if_splits)
      with v b x show ?thesis by (simp add: generate_roadmap_def)
    qed
  qed
next
  case (Inr jobs)
  then have n: "generate_roadmap E request db \<noteq> Inl (HTTPException 404)"
    by (rule no_404_after_retrieval)
  from Inr have "\<not> (\<exists>v. generate_embedding E (target_role request) = Inr v
      \<and> db_query E v (title_filter (target_role request)) 10 db = Inr []
      \<and> db_query E v (\<lambda>job. True) 5 db = Inr [])"
    by (auto simp: retrieval_def similar_jobs_def split: sum.splits if_splits)
  with n show ?thesis by simp
qed

lemma empty_table_404:
  assumes "answers_from_table E"
    and "generate_embedding E (target_role request) = Inr v"
    and "db_query E v (title_filter (target_role request)) 10 [] = Inr first_try"
    and "db_query E v (\<lambda>job. True) 5 [] = Inr second_try"
  shows "generate_roadmap E request [] = Inl (HTTPException 404)"
proof -
  from assms(1,3) have "first_try = []" unfolding answers_from_table_def by fastforce
  moreover from assms(1,4) have "second_try = []"
    unfolding answers_from_table_def by fastforce
  ultimately show ?thesis using assms(2,3,4) by (auto simp: generate_roadmap_404_iff)
qed

text \<open>
  With a database that answers exactly (no index, as in the sample environment), the
  policy in closed form: 404 exactly for an empty table, else the ten nearest rows that
  pass the title filter, or the five nearest rows when none passes.
\<close>

lemma exact_query_Nil_iff:
  "exact_query distance v keep n rows = Inr [] \<longleftrightarrow> n = 0 \<or> filter keep rows = []"
proof -
  have "sort_key f xs = [] \<longleftrightarrow> xs = []" for f :: "JobPosting \<Rightarrow> real" and xs
    by (metis length_0_conv length_sort)
  then show ?thesis by (simp add: exact_query_def take_eq_Nil)
qed

lemma exact_answers_from_table:
  assumes "db_query E = exact_query distance"
  shows "answers_from_table E"
  unfolding answers_from_table_def
proof (intro allI impI)
  fix v keep n rows answer
  assume "db_query E v keep n rows = Inr answer"
  with assms have a: "answer = take n
      (sort_key (\<lambda>job. distance (skills_embedding job) v) (filter keep rows))"
    by (simp add: exact_query_def)
  have "set answer \<subseteq> set (filter keep rows)"
    unfolding a by (rule subset_trans[OF set_take_subset]) simp
  moreover have "length answer \<le> n" unfolding a by simp
  ultimately show "set answer \<subseteq> {job \<in> set rows. keep job} \<and> length answer \<le> n"
    by auto
qed

lemma sample_answers_from_table: "answers_from_table (sample_env order reply)"
  by (rule exact_answers_from_table[of _ sample_distance]) (simp add: sample_env_def)

lemma retrieval_policy:
  assumes "db_query E = exact_query distance"
    and "generate_embedding E (target_role request) = Inr v"
  shows "retrieval E request db =
     (if db = [] then Inl (Http 404)
      else Inr (if title_matches (target_role request) db = []
                then take 5 (sort_key (\<lambda>job. distance (skills_embedding job) v) db)
                else take 10 (sort_key (\<lambda>job. distance (skills_embedding job) v)
                       (title_matches (target_role request) db))))"
proof -
  have n: "sort_key f xs = [] \<longleftrightarrow> xs = []" for f :: "JobPosting \<Rightarrow> real" and xs
    by (metis length_0_conv length_sort)
  show ?thesis
  proof (cases "title_matches (target_role request) db = []")
    case True
    then have "db_query E v (title_filter (target_role request)) 10 db = Inr []"
      by (simp add: assms(1) exact_query_def title_matches_def)
    with assms True show ?thesis
      by (simp add: retrieval_def similar_jobs_def exact_query_def n take_eq_Nil)
  next
    case False
    then have d: "db \<noteq> []" by (auto simp: title_matches_def)
    from False have "db_query E v (title_filter (target_role request)) 10 db
        = Inr (take 10 (sort_key (\<lambda>job. distance (skills_embedding job) v)
                 (title_matches (target_role request) db)))"
      by (simp add: assms(1) exact_query_def title_matches_def)
    with assms False d show ?thesis
      by (simp add: retrieval_def similar_jobs_def n take_eq_Nil)
  qed
qed

subsection \<open>The title filter\<close>

text \<open>
  For a role without pattern characters, the first query keeps exactly the rows whose
  lower-cased title contains the lower-cased role.
\<close>

lemma like_match_literal:
  assumes "\<forall>c\<in>set p. c \<notin> set pattern_chars"
  shows "like_match (p @ q) t \<longleftrightarrow> (\<exists>r. t = p @ r \<and> like_match q r)"
  using assms
proof (induction p arbitrary: t)
  case Nil
  then show ?case by simp
next
  case (Cons c p)
  then have c: "c \<noteq> CHR ''%''" "c \<noteq> CHR ''_''" "c \<noteq> CHR 0x5C"
    by (auto simp: pattern_chars_def)
  from Cons have IH: "\<And>t. like_match (p @ q) t \<longleftrightarrow> (\<exists>r. t = p @ r \<and> like_match q r)"
    by simp
  show ?case
  proof (cases t)
    case Nil
    with c show ?thesis by simp
  next
    case (Cons x ts)
    with c IH[of ts] show ?thesis by auto
  qed
qed

lemma like_match_percent:
  "like_match (CHR ''%'' # q) t \<longleftrightarrow> (\<exists>a b. t = a @ b \<and> like_match q b)"
proof (induction t)
  case Nil
  show ?case by simp
next
  case (Cons x ts)
  have "like_match (CHR ''%'' # q) (x # ts)
      \<longleftrightarrow> like_match q (x # ts) \<or> like_match (CHR ''%'' # q) ts"
    by simp
  also have "\<dots> \<longleftrightarrow> like_match q (x # ts) \<or> (\<exists>a b. ts = a @ b \<and> like_match q b)"
    by (simp only: Cons.IH)
  also have "\<dots> \<longleftrightarrow> (\<exists>a b. x # ts = a @ b \<and> like_match q b)"
    by (auto simp: Cons_eq_append_conv)
  finally show ?case .
qed

lemma like_match_contains:
  assumes "\<forall>c\<in>set p. c \<notin> set pattern_chars"
  shows "like_match (''%'' @ p @ ''%'') t \<longleftrightarrow> sublist p t"
proof -
  have "like_match (''%'' @ p @ ''%'') t \<longleftrightarrow> (\<exists>a b. t = a @ b \<and> like_match (p @ ''%'') b)"
    using like_match_percent[of "p @ ''%''" t] by simp
  also have "\<dots> \<longleftrightarrow> (\<exists>a b. t = a @ b \<and> (\<exists>r. b = p @ r \<and> like_match ''%'' r))"
    by (simp only: like_match_literal[OF assms])
  also have "\<dots> \<longleftrightarrow> (\<exists>a r. t = a @ p @ r)"
    using like_match_percent[of "[]"] by auto
  finally show ?thesis by (simp add: sublist_def)
qed

lemma upper_not_pattern: "c \<in> set upper_chars \<Longrightarrow> c \<notin> set pattern_chars"
  by (auto simp: upper_chars_def pattern_chars_def)

lemma lower_not_pattern: "c \<in> set lower_chars \<Longrightarrow> c \<notin> set pattern_chars"
  by (auto simp: lower_chars_def pattern_chars_def)

lemma lower_char_pattern_iff: "lower_char c \<in> set pattern_chars \<longleftrightarrow> c \<in> set pattern_chars"
  using lower_char_cases[of c] upper_not_pattern[of c] lower_not_pattern[of "lower_char c"]
  by auto

lemma lower_char_percent: "lower_char (CHR ''%'') = CHR ''%''"
  by (rule lower_char_fixed) (simp add: upper_chars_def)

lemma ilike_contains:
  assumes "\<forall>c\<in>set role. c \<notin> set pattern_chars"
  shows "ilike s (''%'' @ role @ ''%'') \<longleftrightarrow> sublist (str_lower role) (str_lower s)"
proof -
  have p: "str_lower (''%'' @ role @ ''%'') = ''%'' @ str_lower role @ ''%''"
    by (simp add: str_lower_def lower_char_percent)
  from assms have "\<forall>c\<in>set (str_lower role). c \<notin> set pattern_chars"
    by (auto simp: str_lower_def lower_char_pattern_iff)
  from like_match_contains[OF this] show ?thesis
    by (simp only: ilike_def p)
qed

lemma title_matches_contains:
  assumes "\<forall>c\<in>set role. c \<notin> set pattern_chars"
  shows "title_matches role db
     = filter (\<lambda>job. sublist (str_lower role) (str_lower (job_title job))) db"
proof -
  have "title_filter role = (\<lambda>job. sublist (str_lower role) (str_lower (job_title job)))"
    by (rule ext) (simp only: title_filter_def ilike_contains[OF assms])
  then show ?thesis by (simp only: title_matches_def)
qed

text \<open>
  Claim C5 at a failing input. The claim says the first tier ranks only rows whose title
  contains the target role as a case-insensitive substring. The role is pasted into the
  \<^verbatim>\<open>ILIKE\<close> pattern as it is, so an underscore in it matches any character: for the
  role \<^verbatim>\<open>Data_Engineer\<close> the first tier returns the posting titled
  \<^verbatim>\<open>Data Engineer\<close>, whose title does not contain the role. (For the role
  \<^verbatim>\<open>Data Engineer\<close> it is a substring match.)
\<close>

theorem C5_wildcard_role:
  "title_matches ''Data_Engineer'' [backend_job, data_job] = [data_job]
   \<and> \<not> sublist (str_lower ''Data_Engineer'') (str_lower (job_title data_job))
   \<and> retrieval (sample_env sample_order unavailable)
        (sample_request ''Data_Engineer'' [''Python'']) [backend_job, data_job]
      = Inr [data_job]
   \<and> title_matches ''Data Engineer'' [backend_job, data_job] = [data_job]
   \<and> sublist (str_lower ''Data Engineer'') (str_lower (job_title data_job))"
  by code_simp

end
